theory Spec2Isabelle
  imports Main "HOL-Library.AList"
begin

section \<open>Characters and strings\<close>

text \<open>
  The parser works on JavaScript strings.  Texts are modelled as lists of 8-bit characters; the
  model is exact for ASCII input (every character class below is the ASCII part of the
  class the matching engine uses).
\<close>

definition char_code :: "char \<Rightarrow> nat" where
  "char_code c = of_char c"

definition is_upper :: "char \<Rightarrow> bool" where
  "is_upper c = (65 \<le> char_code c \<and> char_code c \<le> 90)"

definition is_lower :: "char \<Rightarrow> bool" where
  "is_lower c = (97 \<le> char_code c \<and> char_code c \<le> 122)"

definition is_digit :: "char \<Rightarrow> bool" where
  "is_digit c = (48 \<le> char_code c \<and> char_code c \<le> 57)"

definition is_letter :: "char \<Rightarrow> bool" where
  "is_letter c = (is_lower c \<or> is_upper c)"

definition is_hexDigit :: "char \<Rightarrow> bool" where
  "is_hexDigit c = (is_digit c \<or> (97 \<le> char_code c \<and> char_code c \<le> 102)
                      \<or> (65 \<le> char_code c \<and> char_code c \<le> 70))"

definition is_space :: "char \<Rightarrow> bool" where
  "is_space c = (char_code c \<le> 32)"

text \<open>\<open>String.prototype.toUpperCase\<close> on one character: a lower-case letter loses bit 5
  (its code drops by 32), every other character is unchanged.\<close>

definition toUpperCase :: "char \<Rightarrow> char" where
  "toUpperCase c =
     (if is_lower c
      then (case c of Char b0 b1 b2 b3 b4 b5 b6 b7 \<Rightarrow> Char b0 b1 b2 b3 b4 False b6 b7)
      else c)"

definition toLowerCase :: "char \<Rightarrow> char" where
  "toLowerCase c =
     (if is_upper c
      then (case c of Char b0 b1 b2 b3 b4 b5 b6 b7 \<Rightarrow> Char b0 b1 b2 b3 b4 True b6 b7)
      else c)"

definition dquote :: char where "dquote = CHR 0x22"
definition squote :: char where "squote = CHR 0x27"
definition backslash :: char where "backslash = CHR 0x5C"
definition backtick :: char where "backtick = CHR 0x60"
definition newline_char :: char where "newline_char = CHR 0x0A"
definition cr_char :: char where "cr_char = CHR 0x0D"
definition tab_char :: char where "tab_char = CHR 0x09"

text \<open>\<open>s.slice(a, b)\<close> for \<open>0 \<le> a\<close>, \<open>0 \<le> b\<close>; \<open>s.slice(1, -1)\<close>.\<close>

definition substring :: "string \<Rightarrow> nat \<Rightarrow> nat \<Rightarrow> string" where
  "substring s a b = take (b - a) (drop a s)"

definition slice_1_m1 :: "string \<Rightarrow> string" where
  "slice_1_m1 s = substring s 1 (length s - 1)"

text \<open>\<open>s.split("\n")\<close>: the pieces between newline characters; never empty.\<close>

fun split_newline :: "string \<Rightarrow> string list" where
  "split_newline [] = [[]]"
| "split_newline (c # cs) =
     (if c = newline_char then [] # split_newline cs
      else (case split_newline cs of l # ls \<Rightarrow> (c # l) # ls | [] \<Rightarrow> [[c]]))"

definition startsWith :: "string \<Rightarrow> char \<Rightarrow> bool" where
  "startsWith s c = (case s of [] \<Rightarrow> False | d # _ \<Rightarrow> d = c)"

text \<open>The decimal digits of a natural number, as a template literal prints it.\<close>

fun digits_of :: "nat \<Rightarrow> nat \<Rightarrow> string" where
  "digits_of 0 n = []"
| "digits_of (Suc fuel) n =
     (if n < 10 then [char_of (48 + n)]
      else digits_of fuel (n div 10) @ [char_of (48 + n mod 10)])"

definition show_nat :: "nat \<Rightarrow> string" where
  "show_nat n = digits_of (Suc n) n"

section \<open>JavaScript values\<close>

text \<open>
  The semantic actions build untyped JavaScript objects and merge them with
  \<open>Object.assign\<close> and spread syntax, so the document is modelled as a value of the
  following type.  An object is the list of its own properties in insertion order.
  \<open>JNum\<close> holds the decimal literal that \<open>parseFloat\<close> read (the rounding to a
  double is not modelled).  \<open>JFun\<close> is a built-in function object, by name.
  \<open>JRef i\<close>, inside a table, is a reference to the column object stored at index \<open>i\<close>
  of that table's \<open>columns\<close> array: the Table action pushes one and the same object onto
  \<open>columns\<close> and into an \<open>elements\<close> entry, and the parser later assigns to its
  \<open>type\<close> property through \<open>columns\<close>.
\<close>

datatype jsval =
    JUndefined
  | JNull
  | JBool bool
  | JNum string
  | JStr string
  | JArr "jsval list"
  | JObj "(string \<times> jsval) list"
  | JRef nat
  | JFun string

text \<open>Reading an own property (\<open>o.k\<close>); \<open>undefined\<close> when it is absent.\<close>

definition get_prop :: "jsval \<Rightarrow> string \<Rightarrow> jsval" where
  "get_prop v k = (case v of JObj ps \<Rightarrow> (case map_of ps k of Some x \<Rightarrow> x | None \<Rightarrow> JUndefined)
               | _ \<Rightarrow> JUndefined)"

text \<open>\<open>k in o\<close>, for the property names the actions test (none is inherited).\<close>

definition has_prop :: "jsval \<Rightarrow> string \<Rightarrow> bool" where
  "has_prop v k = (case v of JObj ps \<Rightarrow> map_of ps k \<noteq> None | _ \<Rightarrow> False)"

text \<open>Writing a property (\<open>o.k = x\<close>): in place when it exists, appended otherwise.\<close>

definition set_prop :: "jsval \<Rightarrow> string \<Rightarrow> jsval \<Rightarrow> jsval" where
  "set_prop v k x = (case v of JObj ps \<Rightarrow> JObj (AList.update k x ps) | _ \<Rightarrow> v)"

text \<open>\<open>delete o.k\<close>.\<close>

definition delete_prop :: "jsval \<Rightarrow> string \<Rightarrow> jsval" where
  "delete_prop v k = (case v of JObj ps \<Rightarrow> JObj (AList.delete k ps) | _ \<Rightarrow> v)"

definition own_props :: "jsval \<Rightarrow> (string \<times> jsval) list" where
  "own_props v = (case v of JObj ps \<Rightarrow> ps | _ \<Rightarrow> [])"

text \<open>An object has no two properties of the same name.\<close>

definition wf_object :: "jsval \<Rightarrow> bool" where
  "wf_object v = distinct (map fst (own_props v))"

text \<open>\<open>Object.assign(target, source)\<close>, and the spread \<open>{...target, ...source}\<close>: every own
  property of the source is written onto the target, in the source's order.\<close>

definition assign :: "jsval \<Rightarrow> jsval \<Rightarrow> jsval" where
  "assign target source = foldl (\<lambda>acc (k, x). set_prop acc k x) target (own_props source)"

text \<open>\<open>o.k.push(x)\<close> for an array-valued property.\<close>

definition push_prop :: "jsval \<Rightarrow> string \<Rightarrow> jsval \<Rightarrow> jsval" where
  "push_prop v k x = (case get_prop v k of JArr xs \<Rightarrow> set_prop v k (JArr (xs @ [x])) | _ \<Rightarrow> v)"

definition truthy :: "jsval \<Rightarrow> bool" where
  "truthy v = (case v of JUndefined \<Rightarrow> False | JNull \<Rightarrow> False | JBool b \<Rightarrow> b
                | JNum s \<Rightarrow> \<not> list_all (\<lambda>c. c \<in> set ''-0.'') s | JStr s \<Rightarrow> s \<noteq> [] | _ \<Rightarrow> True)"

text \<open>\<open>a ?? b\<close> and \<open>a || b\<close>.\<close>

definition nullish :: "jsval \<Rightarrow> jsval \<Rightarrow> jsval" where
  "nullish a b = (if a = JUndefined \<or> a = JNull then b else a)"

definition or_else :: "jsval \<Rightarrow> jsval \<Rightarrow> jsval" where
  "or_else a b = (if truthy a then a else b)"

text \<open>\<open>typeof v === 'object' && v !== null\<close>.\<close>

definition is_object :: "jsval \<Rightarrow> bool" where
  "is_object v = (case v of JObj _ \<Rightarrow> True | JArr _ \<Rightarrow> True | JRef _ \<Rightarrow> True | _ \<Rightarrow> False)"

text \<open>\<open>a[0]\<close> and \<open>a.length > 0\<close> on an array.\<close>

definition first_of :: "jsval \<Rightarrow> jsval" where
  "first_of v = (case v of JArr (x # _) \<Rightarrow> x | _ \<Rightarrow> JUndefined)"

definition elems :: "jsval \<Rightarrow> jsval list" where
  "elems v = (case v of JArr xs \<Rightarrow> xs | _ \<Rightarrow> [])"

text \<open>String conversion of the values the actions concatenate or join (strings; the other
  primitives for completeness).\<close>

definition str_of :: "jsval \<Rightarrow> string" where
  "str_of v = (case v of JStr s \<Rightarrow> s | JNum s \<Rightarrow> s | JBool b \<Rightarrow> (if b then ''true'' else ''false'')
                | JNull \<Rightarrow> ''null'' | JUndefined \<Rightarrow> ''undefined'' | _ \<Rightarrow> ''[object Object]'')"

text \<open>\<open>a.join('')\<close>: \<open>undefined\<close> and \<open>null\<close> elements join as the empty string.\<close>

definition join_empty :: "jsval list \<Rightarrow> string" where
  "join_empty vs = concat (map (\<lambda>v. if v = JUndefined \<or> v = JNull then [] else str_of v) vs)"

section \<open>The grammar (dbml.ohm) and the matching engine\<close>

text \<open>
  Parsing expressions of the grammar language.  \<open>PSeq\<close> and \<open>PAlt\<close> are binary; the
  n-ary sequences and ordered choices of the grammar are nested to the right by \<open>seq\<close> and
  \<open>alt\<close>.  \<open>PClass\<close> is a built-in character class.  \<open>PListOf e s\<close> is the built-in
  \<open>ListOf<e, s>\<close>.
\<close>

datatype cclass = Letter | Digit | HexDigit | Space

datatype pexpr =
    PAny
  | PEnd
  | PTerminal string
  | PCaseInsensitive string
  | PClass cclass
  | PAlt pexpr pexpr
  | PSeq pexpr pexpr
  | PEmpty
  | PStar pexpr
  | PPlus pexpr
  | POpt pexpr
  | PNot pexpr
  | PApply string
  | PListOf pexpr pexpr

text \<open>
  Nodes of the concrete syntax tree, each with the interval \<open>[start, end)\<close> of the input it
  covers.  A nonterminal node carries its rule name and one child per element of the
  rule body; an iteration node (for \<open>*\<close>, \<open>+\<close>, \<open>?\<close>) holds the matches of one column.
\<close>

datatype node =
    TerminalNode nat nat
  | NonterminalNode string "node list" nat nat
  | IterationNode "node list" nat nat

datatype 'a res = Match 'a | NoMatch | OutOfFuel | GrammarError

fun in_class :: "cclass \<Rightarrow> char \<Rightarrow> bool" where
  "in_class Letter c = is_letter c"
| "in_class Digit c = is_digit c"
| "in_class HexDigit c = is_hexDigit c"
| "in_class Space c = is_space c"

fun seq :: "pexpr list \<Rightarrow> pexpr" where
  "seq [] = PEmpty"
| "seq [e] = e"
| "seq (e # es) = PSeq e (seq es)"

fun alt :: "pexpr list \<Rightarrow> pexpr" where
  "alt [] = PNot PEmpty"
| "alt [e] = e"
| "alt (e # es) = PAlt e (alt es)"

text \<open>The keyword rules: each is \<open>caseInsensitive<"...">\<close> of its own name.\<close>

definition keyword_rules :: "string list" where
  "keyword_rules =
    [''project'', ''table'', ''tablepartial'', ''ref'', ''enum'', ''tablegroup'', ''indexes'',
     ''note'', ''headercolor'', ''as'', ''type'', ''name'', ''where'', ''default'', ''not'',
     ''null'', ''primary'', ''key'', ''delete'', ''update'', ''set'', ''no'', ''action'',
     ''true'', ''false'',
     ''pk'', ''unique'', ''increment'',
     ''asc'', ''desc'',
     ''btree'', ''hash'', ''gin'', ''gist'', ''spgist'', ''brin'',
     ''cascade'', ''restrict'',
     ''generated'', ''always'', ''by'', ''identity'',
     ''stored'',
     ''check'', ''constraints'', ''constraint'', ''exclude'', ''using'', ''with'',
     ''deferrable'', ''initially'', ''deferred'', ''immediate'']"

text \<open>The rules of dbml.ohm, in the file's order; an alternative with a case name
  \<open>-- c\<close> of rule \<open>R\<close> is the rule \<open>R_c\<close>.  The built-in rules \<open>letter\<close>, \<open>digit\<close>,
  \<open>hexDigit\<close> come last; \<open>space\<close> is the built-in class extended by \<open>comment\<close>.\<close>

definition rule_Schema :: pexpr where
  "rule_Schema =
     PStar (PApply ''Element'')"

definition rule_Element :: pexpr where
  "rule_Element =
     alt [PApply ''Project'', PApply ''Table'', PApply ''TablePartial'', PApply ''Ref'',
       PApply ''Enum'', PApply ''TableGroup'']"

definition rule_Project :: pexpr where
  "rule_Project =
     seq [PApply ''project'', PApply ''identifier'', PTerminal ''{'', PApply ''ProjectBody'',
       PTerminal ''}'']"

definition rule_ProjectBody :: pexpr where
  "rule_ProjectBody =
     PStar (PApply ''ProjectProperty'')"

definition rule_ProjectProperty :: pexpr where
  "rule_ProjectProperty =
     seq [PApply ''identifier'', PTerminal '':'', PApply ''Value'']"

definition rule_Table :: pexpr where
  "rule_Table =
     seq [PApply ''table'', PApply ''QualifiedIdentifier'', POpt (PApply ''TableAlias''),
       PTerminal ''{'', PApply ''TableBody'', PTerminal ''}'']"

definition rule_QualifiedIdentifier :: pexpr where
  "rule_QualifiedIdentifier =
     alt [PApply ''QualifiedIdentifier_qualified'',
       PApply ''QualifiedIdentifier_simple'']"

definition rule_QualifiedIdentifier_qualified :: pexpr where
  "rule_QualifiedIdentifier_qualified =
     seq [PApply ''identifier'', PTerminal ''.'', PApply ''identifier'']"

definition rule_QualifiedIdentifier_simple :: pexpr where
  "rule_QualifiedIdentifier_simple =
     PApply ''identifier''"

definition rule_TableAlias :: pexpr where
  "rule_TableAlias =
     seq [PApply ''as'', PApply ''identifier'']"

definition rule_TableBody :: pexpr where
  "rule_TableBody =
     PStar (PApply ''TableElement'')"

definition rule_TableElement :: pexpr where
  "rule_TableElement =
     alt [PApply ''Column'', PApply ''Indexes'', PApply ''Constraints'', PApply ''Note'',
       PApply ''HeaderColor'', PApply ''PartialReference'']"

definition rule_TablePartial :: pexpr where
  "rule_TablePartial =
     seq [PApply ''tablepartial'', PApply ''identifier'', PTerminal ''{'',
       PApply ''TablePartialBody'', PTerminal ''}'']"

definition rule_TablePartialBody :: pexpr where
  "rule_TablePartialBody =
     PStar (PApply ''TablePartialElement'')"

definition rule_TablePartialElement :: pexpr where
  "rule_TablePartialElement =
     alt [PApply ''Column'', PApply ''Indexes'', PApply ''Constraints'',
       PApply ''Note'']"

definition rule_PartialReference :: pexpr where
  "rule_PartialReference =
     seq [PTerminal ''~'', PApply ''identifier'']"

definition rule_Column :: pexpr where
  "rule_Column =
     seq [PApply ''identifier'', PApply ''DataType'', POpt (PApply ''ColumnSettings'')]"

definition rule_DataType :: pexpr where
  "rule_DataType =
     alt [PApply ''DataType_array'', PApply ''DataType_parameterized'',
       PApply ''DataType_simple'']"

definition rule_DataType_array :: pexpr where
  "rule_DataType_array =
     seq [PApply ''identifier'', PTerminal ''[]'']"

definition rule_DataType_parameterized :: pexpr where
  "rule_DataType_parameterized =
     seq [PApply ''identifier'', PTerminal ''('', PApply ''TypeParams'',
       PTerminal '')'']"

definition rule_DataType_simple :: pexpr where
  "rule_DataType_simple =
     PApply ''identifier''"

definition rule_TypeParams :: pexpr where
  "rule_TypeParams =
     PPlus (seq [PNot (PTerminal '')''), PAny])"

definition rule_ColumnSettings :: pexpr where
  "rule_ColumnSettings =
     seq [PTerminal ''['', PListOf (PApply ''ColumnSetting'') (PTerminal '',''),
       PTerminal '']'']"

definition rule_ColumnSetting :: pexpr where
  "rule_ColumnSetting =
     alt [PApply ''ColumnSetting_pk'', PApply ''ColumnSetting_primaryKey'',
       PApply ''ColumnSetting_unique'', PApply ''ColumnSetting_notNull'', PApply ''ColumnSetting_null'',
       PApply ''ColumnSetting_increment'', PApply ''ColumnSetting_identityAlways'',
       PApply ''ColumnSetting_identityByDefault'', PApply ''ColumnSetting_generatedStored'',
       PApply ''ColumnSetting_check'', PApply ''ColumnDefault'', PApply ''ColumnNote'',
       PApply ''ColumnRef'']"

definition rule_ColumnSetting_pk :: pexpr where
  "rule_ColumnSetting_pk =
     PApply ''pk''"

definition rule_ColumnSetting_primaryKey :: pexpr where
  "rule_ColumnSetting_primaryKey =
     seq [PApply ''primary'', PApply ''key'']"

definition rule_ColumnSetting_unique :: pexpr where
  "rule_ColumnSetting_unique =
     PApply ''unique''"

definition rule_ColumnSetting_notNull :: pexpr where
  "rule_ColumnSetting_notNull =
     seq [PApply ''not'', PApply ''null'']"

definition rule_ColumnSetting_null :: pexpr where
  "rule_ColumnSetting_null =
     PApply ''null''"

definition rule_ColumnSetting_increment :: pexpr where
  "rule_ColumnSetting_increment =
     PApply ''increment''"

definition rule_ColumnSetting_identityAlways :: pexpr where
  "rule_ColumnSetting_identityAlways =
     seq [PApply ''generated'', PApply ''always'', PApply ''as'',
       PApply ''identity'']"

definition rule_ColumnSetting_identityByDefault :: pexpr where
  "rule_ColumnSetting_identityByDefault =
     seq [PApply ''generated'', PApply ''by'', PApply ''default'',
       PApply ''as'', PApply ''identity'']"

definition rule_ColumnSetting_generatedStored :: pexpr where
  "rule_ColumnSetting_generatedStored =
     seq [PApply ''generated'', PApply ''always'', PApply ''as'',
       PApply ''backtickString'', PApply ''stored'']"

definition rule_ColumnSetting_check :: pexpr where
  "rule_ColumnSetting_check =
     seq [PApply ''check'', PApply ''backtickString'']"

definition rule_ColumnDefault :: pexpr where
  "rule_ColumnDefault =
     seq [PApply ''default'', PTerminal '':'', PApply ''DefaultValue'']"

definition rule_ColumnNote :: pexpr where
  "rule_ColumnNote =
     seq [PApply ''note'', PTerminal '':'', PApply ''Value'']"

definition rule_ColumnRef :: pexpr where
  "rule_ColumnRef =
     seq [PApply ''ref'', PTerminal '':'', PApply ''RefType'', PApply ''RefEndpoint'']"

definition rule_DefaultValue :: pexpr where
  "rule_DefaultValue =
     alt [PApply ''DefaultValue_expression'', PApply ''DefaultValue_literal'']"

definition rule_DefaultValue_expression :: pexpr where
  "rule_DefaultValue_expression =
     PApply ''backtickString''"

definition rule_DefaultValue_literal :: pexpr where
  "rule_DefaultValue_literal =
     PApply ''Value''"

definition rule_Indexes :: pexpr where
  "rule_Indexes =
     seq [PApply ''indexes'', PTerminal ''{'', PStar (PApply ''Index''), PTerminal ''}'']"

definition rule_Index :: pexpr where
  "rule_Index =
     alt [PApply ''Index_composite'', PApply ''Index_single'']"

definition rule_Index_composite :: pexpr where
  "rule_Index_composite =
     seq [PTerminal ''('', PListOf (PApply ''IndexColumn'') (PTerminal '',''),
       PTerminal '')'', POpt (PApply ''IndexSettings'')]"

definition rule_Index_single :: pexpr where
  "rule_Index_single =
     seq [PApply ''identifier'', POpt (PApply ''IndexSettings'')]"

definition rule_IndexColumn :: pexpr where
  "rule_IndexColumn =
     seq [PApply ''identifier'', POpt (PApply ''SortOrder'')]"

definition rule_SortOrder :: pexpr where
  "rule_SortOrder =
     alt [PApply ''SortOrder_asc'', PApply ''SortOrder_desc'']"

definition rule_SortOrder_asc :: pexpr where
  "rule_SortOrder_asc =
     PApply ''asc''"

definition rule_SortOrder_desc :: pexpr where
  "rule_SortOrder_desc =
     PApply ''desc''"

definition rule_IndexSettings :: pexpr where
  "rule_IndexSettings =
     seq [PTerminal ''['', PListOf (PApply ''IndexSetting'') (PTerminal '',''),
       PTerminal '']'']"

definition rule_IndexSetting :: pexpr where
  "rule_IndexSetting =
     alt [PApply ''IndexType'', PApply ''IndexName'', PApply ''IndexWhere'',
       PApply ''IndexSetting_pk'', PApply ''IndexSetting_unique'']"

definition rule_IndexSetting_pk :: pexpr where
  "rule_IndexSetting_pk =
     PApply ''pk''"

definition rule_IndexSetting_unique :: pexpr where
  "rule_IndexSetting_unique =
     PApply ''unique''"

definition rule_IndexType :: pexpr where
  "rule_IndexType =
     seq [PApply ''type'', PTerminal '':'', PApply ''IndexTypeName'']"

definition rule_IndexName :: pexpr where
  "rule_IndexName =
     seq [PApply ''name'', PTerminal '':'', PApply ''Value'']"

definition rule_IndexWhere :: pexpr where
  "rule_IndexWhere =
     seq [PApply ''where'', PTerminal '':'', PApply ''Value'']"

definition rule_IndexTypeName :: pexpr where
  "rule_IndexTypeName =
     alt [PApply ''IndexTypeName_btree'', PApply ''IndexTypeName_hash'',
       PApply ''IndexTypeName_gin'', PApply ''IndexTypeName_gist'', PApply ''IndexTypeName_spgist'',
       PApply ''IndexTypeName_brin'', PApply ''IndexTypeName_custom'']"

definition rule_IndexTypeName_btree :: pexpr where
  "rule_IndexTypeName_btree =
     PApply ''btree''"

definition rule_IndexTypeName_hash :: pexpr where
  "rule_IndexTypeName_hash =
     PApply ''hash''"

definition rule_IndexTypeName_gin :: pexpr where
  "rule_IndexTypeName_gin =
     PApply ''gin''"

definition rule_IndexTypeName_gist :: pexpr where
  "rule_IndexTypeName_gist =
     PApply ''gist''"

definition rule_IndexTypeName_spgist :: pexpr where
  "rule_IndexTypeName_spgist =
     PApply ''spgist''"

definition rule_IndexTypeName_brin :: pexpr where
  "rule_IndexTypeName_brin =
     PApply ''brin''"

definition rule_IndexTypeName_custom :: pexpr where
  "rule_IndexTypeName_custom =
     PApply ''identifier''"

definition rule_Constraints :: pexpr where
  "rule_Constraints =
     seq [PApply ''constraints'', PTerminal ''{'', PStar (PApply ''Constraint''),
       PTerminal ''}'']"

definition rule_Constraint :: pexpr where
  "rule_Constraint =
     seq [POpt (PApply ''ConstraintName''), PApply ''ConstraintType'',
       POpt (PApply ''ConstraintSettings'')]"

definition rule_ConstraintName :: pexpr where
  "rule_ConstraintName =
     seq [PApply ''constraint'', PApply ''identifier'']"

definition rule_ConstraintType :: pexpr where
  "rule_ConstraintType =
     alt [PApply ''ConstraintType_check'', PApply ''ConstraintType_unique'',
       PApply ''ConstraintType_primaryKey'', PApply ''ConstraintType_exclude'']"

definition rule_ConstraintType_check :: pexpr where
  "rule_ConstraintType_check =
     seq [PApply ''check'', PApply ''backtickString'']"

definition rule_ConstraintType_unique :: pexpr where
  "rule_ConstraintType_unique =
     seq [PApply ''unique'', PTerminal ''('',
       PListOf (PApply ''identifier'') (PTerminal '',''), PTerminal '')'']"

definition rule_ConstraintType_primaryKey :: pexpr where
  "rule_ConstraintType_primaryKey =
     seq [PApply ''primary'', PApply ''key'', PTerminal ''('',
       PListOf (PApply ''identifier'') (PTerminal '',''), PTerminal '')'']"

definition rule_ConstraintType_exclude :: pexpr where
  "rule_ConstraintType_exclude =
     seq [PApply ''exclude'', PApply ''using'', PApply ''identifier'',
       PTerminal ''('', PApply ''identifier'', PApply ''with'', PApply ''ExcludeOperator'',
       PTerminal '')'']"

definition rule_ExcludeOperator :: pexpr where
  "rule_ExcludeOperator =
     alt [PTerminal ''&&'', PTerminal ''='', PTerminal ''<>'', PTerminal ''@>'',
       PTerminal ''<@'', PTerminal ''||'', PTerminal ''-|-'', PTerminal ''~'', PPlus PAny]"

definition rule_ConstraintSettings :: pexpr where
  "rule_ConstraintSettings =
     seq [PTerminal ''['',
       PListOf (PApply ''ConstraintSetting'') (PTerminal '',''), PTerminal '']'']"

definition rule_ConstraintSetting :: pexpr where
  "rule_ConstraintSetting =
     alt [PApply ''ConstraintSetting_deferrable'',
       PApply ''ConstraintSetting_notDeferrable'', PApply ''ConstraintSetting_initiallyDeferred'',
       PApply ''ConstraintSetting_initiallyImmediate'']"

definition rule_ConstraintSetting_deferrable :: pexpr where
  "rule_ConstraintSetting_deferrable =
     PApply ''deferrable''"

definition rule_ConstraintSetting_notDeferrable :: pexpr where
  "rule_ConstraintSetting_notDeferrable =
     seq [PApply ''not'', PApply ''deferrable'']"

definition rule_ConstraintSetting_initiallyDeferred :: pexpr where
  "rule_ConstraintSetting_initiallyDeferred =
     seq [PApply ''initially'', PApply ''deferred'']"

definition rule_ConstraintSetting_initiallyImmediate :: pexpr where
  "rule_ConstraintSetting_initiallyImmediate =
     seq [PApply ''initially'', PApply ''immediate'']"

definition rule_Ref :: pexpr where
  "rule_Ref =
     seq [PApply ''ref'', POpt (PApply ''RefName''), PTerminal '':'', PApply ''RefEndpoint'',
       PApply ''RefType'', PApply ''RefEndpoint'', POpt (PApply ''RefSettings'')]"

definition rule_RefName :: pexpr where
  "rule_RefName =
     PApply ''identifier''"

definition rule_RefEndpoint :: pexpr where
  "rule_RefEndpoint =
     alt [PApply ''RefEndpoint_compositeQualified'', PApply ''RefEndpoint_composite'',
       PApply ''RefEndpoint_simpleQualified'', PApply ''RefEndpoint_simple'']"

definition rule_RefEndpoint_compositeQualified :: pexpr where
  "rule_RefEndpoint_compositeQualified =
     seq [PApply ''identifier'', PTerminal ''.'',
       PApply ''identifier'', PTerminal ''.'', PTerminal ''('',
       PListOf (PApply ''identifier'') (PTerminal '',''), PTerminal '')'']"

definition rule_RefEndpoint_composite :: pexpr where
  "rule_RefEndpoint_composite =
     seq [PApply ''identifier'', PTerminal ''.'', PTerminal ''('',
       PListOf (PApply ''identifier'') (PTerminal '',''), PTerminal '')'']"

definition rule_RefEndpoint_simpleQualified :: pexpr where
  "rule_RefEndpoint_simpleQualified =
     seq [PApply ''identifier'', PTerminal ''.'',
       PApply ''identifier'', PTerminal ''.'', PApply ''identifier'']"

definition rule_RefEndpoint_simple :: pexpr where
  "rule_RefEndpoint_simple =
     seq [PApply ''identifier'', PTerminal ''.'', PApply ''identifier'']"

definition rule_RefType :: pexpr where
  "rule_RefType =
     alt [PApply ''RefType_many'', PApply ''RefType_to'', PApply ''RefType_from'',
       PApply ''RefType_one'']"

definition rule_RefType_many :: pexpr where
  "rule_RefType_many =
     PTerminal ''<>''"

definition rule_RefType_to :: pexpr where
  "rule_RefType_to =
     PTerminal ''>''"

definition rule_RefType_from :: pexpr where
  "rule_RefType_from =
     PTerminal ''<''"

definition rule_RefType_one :: pexpr where
  "rule_RefType_one =
     PTerminal ''-''"

definition rule_RefSettings :: pexpr where
  "rule_RefSettings =
     seq [PTerminal ''['', PListOf (PApply ''RefSetting'') (PTerminal '',''),
       PTerminal '']'']"

definition rule_RefSetting :: pexpr where
  "rule_RefSetting =
     alt [PApply ''RefSetting_delete'', PApply ''RefSetting_update'']"

definition rule_RefSetting_delete :: pexpr where
  "rule_RefSetting_delete =
     PApply ''RefOnDelete''"

definition rule_RefSetting_update :: pexpr where
  "rule_RefSetting_update =
     PApply ''RefOnUpdate''"

definition rule_RefOnDelete :: pexpr where
  "rule_RefOnDelete =
     seq [PApply ''delete'', PTerminal '':'', PApply ''RefAction'']"

definition rule_RefOnUpdate :: pexpr where
  "rule_RefOnUpdate =
     seq [PApply ''update'', PTerminal '':'', PApply ''RefAction'']"

definition rule_RefAction :: pexpr where
  "rule_RefAction =
     alt [PApply ''RefAction_cascade'', PApply ''RefAction_restrict'',
       PApply ''RefAction_setNull'', PApply ''RefAction_setDefault'', PApply ''RefAction_noAction'']"

definition rule_RefAction_cascade :: pexpr where
  "rule_RefAction_cascade =
     PApply ''cascade''"

definition rule_RefAction_restrict :: pexpr where
  "rule_RefAction_restrict =
     PApply ''restrict''"

definition rule_RefAction_setNull :: pexpr where
  "rule_RefAction_setNull =
     seq [PApply ''set'', PApply ''null'']"

definition rule_RefAction_setDefault :: pexpr where
  "rule_RefAction_setDefault =
     seq [PApply ''set'', PApply ''default'']"

definition rule_RefAction_noAction :: pexpr where
  "rule_RefAction_noAction =
     seq [PApply ''no'', PApply ''action'']"

definition rule_Enum :: pexpr where
  "rule_Enum =
     seq [PApply ''enum'', PApply ''identifier'', PTerminal ''{'', PStar (PApply ''EnumValue''),
       PTerminal ''}'']"

definition rule_EnumValue :: pexpr where
  "rule_EnumValue =
     seq [PApply ''identifier'', POpt (PApply ''EnumValueNote'')]"

definition rule_EnumValueNote :: pexpr where
  "rule_EnumValueNote =
     seq [PTerminal ''['', PApply ''note'', PTerminal '':'', PApply ''Value'',
       PTerminal '']'']"

definition rule_TableGroup :: pexpr where
  "rule_TableGroup =
     seq [PApply ''tablegroup'', PApply ''identifier'', PTerminal ''{'',
       PStar (PApply ''identifier''), PTerminal ''}'']"

definition rule_Note :: pexpr where
  "rule_Note =
     seq [PApply ''note'', PTerminal '':'', PApply ''Value'']"

definition rule_HeaderColor :: pexpr where
  "rule_HeaderColor =
     seq [PApply ''headercolor'', PTerminal '':'',
       alt [PApply ''HexColor'', PApply ''Value'']]"

definition rule_HexColor :: pexpr where
  "rule_HexColor =
     seq [PTerminal ''#'', PApply ''hexDigit'', PApply ''hexDigit'', PApply ''hexDigit'',
       PApply ''hexDigit'', PApply ''hexDigit'', PApply ''hexDigit'']"

definition rule_Value :: pexpr where
  "rule_Value =
     alt [PApply ''tripleString'', PApply ''doubleString'', PApply ''singleString'',
       PApply ''number'', PApply ''boolean'', PApply ''identifier'']"

definition rule_tripleString :: pexpr where
  "rule_tripleString =
     seq [PTerminal [squote, squote, squote],
       PStar (seq [PNot (PTerminal [squote, squote, squote]), PAny]),
       PTerminal [squote, squote, squote]]"

definition rule_doubleString :: pexpr where
  "rule_doubleString =
     seq [PTerminal [dquote], PStar (PApply ''doubleStringChar''), PTerminal [dquote]]"

definition rule_singleString :: pexpr where
  "rule_singleString =
     seq [PTerminal [squote], PStar (PApply ''singleStringChar''), PTerminal [squote]]"

definition rule_doubleStringChar :: pexpr where
  "rule_doubleStringChar =
     alt [PApply ''doubleStringChar_escape'', PApply ''doubleStringChar_normal'']"

definition rule_doubleStringChar_escape :: pexpr where
  "rule_doubleStringChar_escape =
     seq [PTerminal [backslash], PAny]"

definition rule_doubleStringChar_normal :: pexpr where
  "rule_doubleStringChar_normal =
     seq [PNot (alt [PTerminal [dquote], PTerminal [backslash]]), PAny]"

definition rule_singleStringChar :: pexpr where
  "rule_singleStringChar =
     alt [PApply ''singleStringChar_escape'', PApply ''singleStringChar_normal'']"

definition rule_singleStringChar_escape :: pexpr where
  "rule_singleStringChar_escape =
     seq [PTerminal [backslash], PAny]"

definition rule_singleStringChar_normal :: pexpr where
  "rule_singleStringChar_normal =
     seq [PNot (alt [PTerminal [squote], PTerminal [backslash]]), PAny]"

definition rule_backtickString :: pexpr where
  "rule_backtickString =
     seq [PTerminal [backtick], PStar (seq [PNot (PTerminal [backtick]), PAny]),
       PTerminal [backtick]]"

definition rule_number :: pexpr where
  "rule_number =
     seq [POpt (PTerminal ''-''), PPlus (PApply ''digit''),
       POpt (seq [PTerminal ''.'', PPlus (PApply ''digit'')])]"

definition rule_boolean :: pexpr where
  "rule_boolean =
     alt [PApply ''boolean_true'', PApply ''boolean_false'']"

definition rule_boolean_true :: pexpr where
  "rule_boolean_true =
     PApply ''true''"

definition rule_boolean_false :: pexpr where
  "rule_boolean_false =
     PApply ''false''"

definition rule_identifier :: pexpr where
  "rule_identifier =
     alt [PApply ''quotedIdentifier'', PApply ''identifierName'']"

definition rule_quotedIdentifier :: pexpr where
  "rule_quotedIdentifier =
     seq [PTerminal [dquote], PStar (seq [PNot (PTerminal [dquote]), PAny]),
       PTerminal [dquote]]"

definition rule_identifierName :: pexpr where
  "rule_identifierName =
     seq [PNot (PApply ''reservedWord''), alt [PApply ''letter'', PTerminal ''_''],
       PStar (alt [PApply ''letter'', PApply ''digit'', PTerminal ''_''])]"

definition rule_reservedWord :: pexpr where
  "rule_reservedWord =
     seq [alt [PApply ''project'', PApply ''table'', PApply ''tablepartial'',
       PApply ''ref'', PApply ''enum'', PApply ''tablegroup'', PApply ''indexes'',
       PApply ''constraints''],
       PNot (alt [PApply ''letter'', PApply ''digit'', PTerminal ''_''])]"

definition rule_space :: pexpr where
  "rule_space =
     alt [PApply ''comment'', PClass Space]"

definition rule_comment :: pexpr where
  "rule_comment =
     alt [
       seq [PTerminal ''//'', PStar (seq [PNot (PApply ''newline''), PAny]), POpt (PApply ''newline'')],
       seq [PTerminal ''/*'', PStar (seq [PNot (PTerminal ''*/''), PAny]), PTerminal ''*/'']]"

definition rule_newline :: pexpr where
  "rule_newline =
     alt [PApply ''newline_lf'', PApply ''newline_cr'', PApply ''newline_crlf'']"

definition rule_newline_lf :: pexpr where
  "rule_newline_lf =
     PTerminal [newline_char]"

definition rule_newline_cr :: pexpr where
  "rule_newline_cr =
     PTerminal [cr_char]"

definition rule_newline_crlf :: pexpr where
  "rule_newline_crlf =
     PTerminal [cr_char, newline_char]"

definition rule_letter :: pexpr where
  "rule_letter =
     PClass Letter"

definition rule_digit :: pexpr where
  "rule_digit =
     PClass Digit"

definition rule_hexDigit :: pexpr where
  "rule_hexDigit =
     PClass HexDigit"

text \<open>The grammar: the rules by name.\<close>

definition dbml_rules :: "(string \<times> pexpr) list" where
  "dbml_rules = [
    (''Schema'', rule_Schema),
    (''Element'', rule_Element),
    (''Project'', rule_Project),
    (''ProjectBody'', rule_ProjectBody),
    (''ProjectProperty'', rule_ProjectProperty),
    (''Table'', rule_Table),
    (''QualifiedIdentifier'', rule_QualifiedIdentifier),
    (''QualifiedIdentifier_qualified'', rule_QualifiedIdentifier_qualified),
    (''QualifiedIdentifier_simple'', rule_QualifiedIdentifier_simple),
    (''TableAlias'', rule_TableAlias),
    (''TableBody'', rule_TableBody),
    (''TableElement'', rule_TableElement),
    (''TablePartial'', rule_TablePartial),
    (''TablePartialBody'', rule_TablePartialBody),
    (''TablePartialElement'', rule_TablePartialElement),
    (''PartialReference'', rule_PartialReference),
    (''Column'', rule_Column),
    (''DataType'', rule_DataType),
    (''DataType_array'', rule_DataType_array),
    (''DataType_parameterized'', rule_DataType_parameterized),
    (''DataType_simple'', rule_DataType_simple),
    (''TypeParams'', rule_TypeParams),
    (''ColumnSettings'', rule_ColumnSettings),
    (''ColumnSetting'', rule_ColumnSetting),
    (''ColumnSetting_pk'', rule_ColumnSetting_pk),
    (''ColumnSetting_primaryKey'', rule_ColumnSetting_primaryKey),
    (''ColumnSetting_unique'', rule_ColumnSetting_unique),
    (''ColumnSetting_notNull'', rule_ColumnSetting_notNull),
    (''ColumnSetting_null'', rule_ColumnSetting_null),
    (''ColumnSetting_increment'', rule_ColumnSetting_increment),
    (''ColumnSetting_identityAlways'', rule_ColumnSetting_identityAlways),
    (''ColumnSetting_identityByDefault'', rule_ColumnSetting_identityByDefault),
    (''ColumnSetting_generatedStored'', rule_ColumnSetting_generatedStored),
    (''ColumnSetting_check'', rule_ColumnSetting_check),
    (''ColumnDefault'', rule_ColumnDefault),
    (''ColumnNote'', rule_ColumnNote),
    (''ColumnRef'', rule_ColumnRef),
    (''DefaultValue'', rule_DefaultValue),
    (''DefaultValue_expression'', rule_DefaultValue_expression),
    (''DefaultValue_literal'', rule_DefaultValue_literal),
    (''Indexes'', rule_Indexes),
    (''Index'', rule_Index),
    (''Index_composite'', rule_Index_composite),
    (''Index_single'', rule_Index_single),
    (''IndexColumn'', rule_IndexColumn),
    (''SortOrder'', rule_SortOrder),
    (''SortOrder_asc'', rule_SortOrder_asc),
    (''SortOrder_desc'', rule_SortOrder_desc),
    (''IndexSettings'', rule_IndexSettings),
    (''IndexSetting'', rule_IndexSetting),
    (''IndexSetting_pk'', rule_IndexSetting_pk),
    (''IndexSetting_unique'', rule_IndexSetting_unique),
    (''IndexType'', rule_IndexType),
    (''IndexName'', rule_IndexName),
    (''IndexWhere'', rule_IndexWhere),
    (''IndexTypeName'', rule_IndexTypeName),
    (''IndexTypeName_btree'', rule_IndexTypeName_btree),
    (''IndexTypeName_hash'', rule_IndexTypeName_hash),
    (''IndexTypeName_gin'', rule_IndexTypeName_gin),
    (''IndexTypeName_gist'', rule_IndexTypeName_gist),
    (''IndexTypeName_spgist'', rule_IndexTypeName_spgist),
    (''IndexTypeName_brin'', rule_IndexTypeName_brin),
    (''IndexTypeName_custom'', rule_IndexTypeName_custom),
    (''Constraints'', rule_Constraints),
    (''Constraint'', rule_Constraint),
    (''ConstraintName'', rule_ConstraintName),
    (''ConstraintType'', rule_ConstraintType),
    (''ConstraintType_check'', rule_ConstraintType_check),
    (''ConstraintType_unique'', rule_ConstraintType_unique),
    (''ConstraintType_primaryKey'', rule_ConstraintType_primaryKey),
    (''ConstraintType_exclude'', rule_ConstraintType_exclude),
    (''ExcludeOperator'', rule_ExcludeOperator),
    (''ConstraintSettings'', rule_ConstraintSettings),
    (''ConstraintSetting'', rule_ConstraintSetting),
    (''ConstraintSetting_deferrable'', rule_ConstraintSetting_deferrable),
    (''ConstraintSetting_notDeferrable'', rule_ConstraintSetting_notDeferrable),
    (''ConstraintSetting_initiallyDeferred'', rule_ConstraintSetting_initiallyDeferred),
    (''ConstraintSetting_initiallyImmediate'', rule_ConstraintSetting_initiallyImmediate),
    (''Ref'', rule_Ref),
    (''RefName'', rule_RefName),
    (''RefEndpoint'', rule_RefEndpoint),
    (''RefEndpoint_compositeQualified'', rule_RefEndpoint_compositeQualified),
    (''RefEndpoint_composite'', rule_RefEndpoint_composite),
    (''RefEndpoint_simpleQualified'', rule_RefEndpoint_simpleQualified),
    (''RefEndpoint_simple'', rule_RefEndpoint_simple),
    (''RefType'', rule_RefType),
    (''RefType_many'', rule_RefType_many),
    (''RefType_to'', rule_RefType_to),
    (''RefType_from'', rule_RefType_from),
    (''RefType_one'', rule_RefType_one),
    (''RefSettings'', rule_RefSettings),
    (''RefSetting'', rule_RefSetting),
    (''RefSetting_delete'', rule_RefSetting_delete),
    (''RefSetting_update'', rule_RefSetting_update),
    (''RefOnDelete'', rule_RefOnDelete),
    (''RefOnUpdate'', rule_RefOnUpdate),
    (''RefAction'', rule_RefAction),
    (''RefAction_cascade'', rule_RefAction_cascade),
    (''RefAction_restrict'', rule_RefAction_restrict),
    (''RefAction_setNull'', rule_RefAction_setNull),
    (''RefAction_setDefault'', rule_RefAction_setDefault),
    (''RefAction_noAction'', rule_RefAction_noAction),
    (''Enum'', rule_Enum),
    (''EnumValue'', rule_EnumValue),
    (''EnumValueNote'', rule_EnumValueNote),
    (''TableGroup'', rule_TableGroup),
    (''Note'', rule_Note),
    (''HeaderColor'', rule_HeaderColor),
    (''HexColor'', rule_HexColor),
    (''Value'', rule_Value),
    (''tripleString'', rule_tripleString),
    (''doubleString'', rule_doubleString),
    (''singleString'', rule_singleString),
    (''doubleStringChar'', rule_doubleStringChar),
    (''doubleStringChar_escape'', rule_doubleStringChar_escape),
    (''doubleStringChar_normal'', rule_doubleStringChar_normal),
    (''singleStringChar'', rule_singleStringChar),
    (''singleStringChar_escape'', rule_singleStringChar_escape),
    (''singleStringChar_normal'', rule_singleStringChar_normal),
    (''backtickString'', rule_backtickString),
    (''number'', rule_number),
    (''boolean'', rule_boolean),
    (''boolean_true'', rule_boolean_true),
    (''boolean_false'', rule_boolean_false),
    (''identifier'', rule_identifier),
    (''quotedIdentifier'', rule_quotedIdentifier),
    (''identifierName'', rule_identifierName),
    (''reservedWord'', rule_reservedWord),
    (''space'', rule_space),
    (''comment'', rule_comment),
    (''newline'', rule_newline),
    (''newline_lf'', rule_newline_lf),
    (''newline_cr'', rule_newline_cr),
    (''newline_crlf'', rule_newline_crlf),
    (''letter'', rule_letter),
    (''digit'', rule_digit),
    (''hexDigit'', rule_hexDigit)
  ]"

definition rule_body :: "string \<Rightarrow> pexpr option" where
  "rule_body r = map_of (dbml_rules @ map (\<lambda>k. (k, PCaseInsensitive k)) keyword_rules) r"

text \<open>A rule is syntactic (white space is skipped inside it) when its name starts with a
  capital letter.\<close>

definition is_syntactic :: "string \<Rightarrow> bool" where
  "is_syntactic r = (case r of [] \<Rightarrow> False | c # _ \<Rightarrow> is_upper c)"

text \<open>The number of nodes an expression binds.\<close>

fun arity :: "pexpr \<Rightarrow> nat" where
  "arity (PAlt a b) = arity a"
| "arity (PSeq a b) = arity a + arity b"
| "arity PEmpty = 0"
| "arity (PStar e) = arity e"
| "arity (PPlus e) = arity e"
| "arity (POpt e) = arity e"
| "arity (PNot e) = 0"
| "arity _ = 1"

text \<open>The expressions before which a syntactic rule skips white space.\<close>

fun skippable :: "pexpr \<Rightarrow> bool" where
  "skippable PAny = True"
| "skippable PEnd = True"
| "skippable (PTerminal s) = True"
| "skippable (PCaseInsensitive s) = True"
| "skippable (PClass c) = True"
| "skippable (PApply r) = True"
| "skippable (PListOf e s) = True"
| "skippable _ = False"

fun nstart :: "node \<Rightarrow> nat" where
  "nstart (TerminalNode s e) = s"
| "nstart (NonterminalNode r ks s e) = s"
| "nstart (IterationNode ks s e) = s"

fun nend :: "node \<Rightarrow> nat" where
  "nend (TerminalNode s e) = e"
| "nend (NonterminalNode r ks s e) = e"
| "nend (IterationNode ks s e) = e"

fun children :: "node \<Rightarrow> node list" where
  "children (TerminalNode s e) = []"
| "children (NonterminalNode r ks s e) = ks"
| "children (IterationNode ks s e) = ks"

text \<open>The iteration nodes of a repetition: one per column of the repeated expression,
  all with the interval from the first match's start to the last match's end (empty, at
  the current position, when nothing matched).\<close>

definition iter_nodes :: "nat \<Rightarrow> node list list \<Rightarrow> nat \<Rightarrow> node list" where
  "iter_nodes a rows pos =
     (let s = (if concat rows = [] then pos else nstart (hd (concat rows)));
          e = (if concat rows = [] then pos else nend (last (concat rows)))
      in map (\<lambda>j. IterationNode (map (\<lambda>row. row ! j) rows) s e) [0..<a])"

text \<open>Matching a terminal, exactly or ignoring case, against the rest of the input; the
  result is the position and the rest after it.\<close>

fun match_terminal :: "string \<Rightarrow> nat \<Rightarrow> string \<Rightarrow> (nat \<times> string) option" where
  "match_terminal [] p r = Some (p, r)"
| "match_terminal (c # cs) p [] = None"
| "match_terminal (c # cs) p (d # ds) = (if c = d then match_terminal cs (Suc p) ds else None)"

fun match_caseInsensitive :: "string \<Rightarrow> nat \<Rightarrow> string \<Rightarrow> (nat \<times> string) option" where
  "match_caseInsensitive [] p r = Some (p, r)"
| "match_caseInsensitive (c # cs) p [] = None"
| "match_caseInsensitive (c # cs) p (d # ds) =
     (if toUpperCase d = toUpperCase c then match_caseInsensitive cs (Suc p) ds else None)"

text \<open>
  The matching engine: ordered choice, greedy repetition, no backtracking into a choice
  that succeeded.  \<open>peg_eval n syn e pos rest\<close> matches \<open>e\<close> at position \<open>pos\<close>, where
  \<open>rest\<close> is the input from \<open>pos\<close> on; \<open>syn\<close> says whether the enclosing rule is
  syntactic.  It returns the nodes bound, the position reached and the rest of the input.
  \<open>n\<close> bounds the nesting depth of the evaluation.  A repetition whose operand matches
  without consuming input is an error of the grammar, as in the engine.
\<close>

fun peg_eval :: "nat \<Rightarrow> bool \<Rightarrow> pexpr \<Rightarrow> nat \<Rightarrow> string \<Rightarrow> (node list \<times> nat \<times> string) res"
and peg_iter :: "nat \<Rightarrow> bool \<Rightarrow> pexpr \<Rightarrow> nat \<Rightarrow> string \<Rightarrow> (node list list \<times> nat \<times> string) res"
where
  "peg_eval 0 syn e pos rest = OutOfFuel"
| "peg_eval (Suc n) syn e pos rest =
    (if syn \<and> skippable e then
       (case peg_eval n False (PStar (PApply ''space'')) pos rest of
          Match (ns, p, r) \<Rightarrow> peg_eval n False e p r
        | NoMatch \<Rightarrow> NoMatch | OutOfFuel \<Rightarrow> OutOfFuel | GrammarError \<Rightarrow> GrammarError)
     else (case e of
        PAny \<Rightarrow> (case rest of [] \<Rightarrow> NoMatch
                  | c # cs \<Rightarrow> Match ([TerminalNode pos (Suc pos)], Suc pos, cs))
      | PEnd \<Rightarrow> (case rest of [] \<Rightarrow> Match ([TerminalNode pos pos], pos, []) | c # cs \<Rightarrow> NoMatch)
      | PTerminal s \<Rightarrow>
          (case match_terminal s pos rest of
             Some (p, r) \<Rightarrow> Match ([TerminalNode pos p], p, r) | None \<Rightarrow> NoMatch)
      | PCaseInsensitive s \<Rightarrow>
          (case match_caseInsensitive s pos rest of
             Some (p, r) \<Rightarrow> Match ([TerminalNode pos p], p, r) | None \<Rightarrow> NoMatch)
      | PClass c \<Rightarrow>
          (case rest of [] \<Rightarrow> NoMatch
           | d # ds \<Rightarrow> if in_class c d then Match ([TerminalNode pos (Suc pos)], Suc pos, ds)
                       else NoMatch)
      | PAlt a b \<Rightarrow>
          (case peg_eval n syn a pos rest of
             NoMatch \<Rightarrow> peg_eval n syn b pos rest
           | Match m \<Rightarrow> Match m | OutOfFuel \<Rightarrow> OutOfFuel | GrammarError \<Rightarrow> GrammarError)
      | PSeq a b \<Rightarrow>
          (case peg_eval n syn a pos rest of
             Match (ns, p, r) \<Rightarrow>
               (case peg_eval n syn b p r of
                  Match (ms, q, r') \<Rightarrow> Match (ns @ ms, q, r')
                | NoMatch \<Rightarrow> NoMatch | OutOfFuel \<Rightarrow> OutOfFuel | GrammarError \<Rightarrow> GrammarError)
           | NoMatch \<Rightarrow> NoMatch | OutOfFuel \<Rightarrow> OutOfFuel | GrammarError \<Rightarrow> GrammarError)
      | PEmpty \<Rightarrow> Match ([], pos, rest)
      | PStar x \<Rightarrow>
          (case peg_iter n syn x pos rest of
             Match (rows, p, r) \<Rightarrow> Match (iter_nodes (arity x) rows pos, p, r)
           | NoMatch \<Rightarrow> NoMatch | OutOfFuel \<Rightarrow> OutOfFuel | GrammarError \<Rightarrow> GrammarError)
      | PPlus x \<Rightarrow>
          (case peg_iter n syn x pos rest of
             Match (rows, p, r) \<Rightarrow>
               (if rows = [] then NoMatch else Match (iter_nodes (arity x) rows pos, p, r))
           | NoMatch \<Rightarrow> NoMatch | OutOfFuel \<Rightarrow> OutOfFuel | GrammarError \<Rightarrow> GrammarError)
      | POpt x \<Rightarrow>
          (case peg_eval n syn x pos rest of
             Match (ns, p, r) \<Rightarrow>
               (if p = pos then GrammarError else Match (iter_nodes (arity x) [ns] pos, p, r))
           | NoMatch \<Rightarrow> Match (iter_nodes (arity x) [] pos, pos, rest)
           | OutOfFuel \<Rightarrow> OutOfFuel | GrammarError \<Rightarrow> GrammarError)
      | PNot x \<Rightarrow>
          (case peg_eval n syn x pos rest of
             Match m \<Rightarrow> NoMatch
           | NoMatch \<Rightarrow> Match ([], pos, rest)
           | OutOfFuel \<Rightarrow> OutOfFuel | GrammarError \<Rightarrow> GrammarError)
      | PApply r \<Rightarrow>
          (case rule_body r of
             None \<Rightarrow> GrammarError
           | Some b \<Rightarrow>
               (case peg_eval n (is_syntactic r) b pos rest of
                  Match (ns, p, r') \<Rightarrow> Match ([NonterminalNode r ns pos p], p, r')
                | NoMatch \<Rightarrow> NoMatch | OutOfFuel \<Rightarrow> OutOfFuel | GrammarError \<Rightarrow> GrammarError))
      | PListOf x s \<Rightarrow>
          (case peg_eval n True x pos rest of
             Match (ns, p, r) \<Rightarrow>
               (case peg_iter n True (PSeq s x) p r of
                  Match (rows, q, r') \<Rightarrow>
                    Match ([NonterminalNode ''ListOf''
                             [IterationNode (ns @ concat (map tl rows)) pos q] pos q], q, r')
                | NoMatch \<Rightarrow> NoMatch | OutOfFuel \<Rightarrow> OutOfFuel | GrammarError \<Rightarrow> GrammarError)
           | NoMatch \<Rightarrow> Match ([NonterminalNode ''ListOf'' [IterationNode [] pos pos] pos pos], pos, rest)
           | OutOfFuel \<Rightarrow> OutOfFuel | GrammarError \<Rightarrow> GrammarError)))"
| "peg_iter 0 syn x pos rest = OutOfFuel"
| "peg_iter (Suc n) syn x pos rest =
    (case peg_eval n syn x pos rest of
       Match (ns, p, r) \<Rightarrow>
         (if p = pos then GrammarError
          else (case peg_iter n syn x p r of
                  Match (rows, q, r') \<Rightarrow> Match (ns # rows, q, r')
                | NoMatch \<Rightarrow> NoMatch | OutOfFuel \<Rightarrow> OutOfFuel | GrammarError \<Rightarrow> GrammarError))
     | NoMatch \<Rightarrow> Match ([], pos, rest)
     | OutOfFuel \<Rightarrow> OutOfFuel | GrammarError \<Rightarrow> GrammarError)"

text \<open>\<open>grammar.match(text, startRule)\<close>: the start rule followed by the end of the input;
  the default start rule is the grammar's first rule.  The result is the node of the
  start rule.\<close>

definition grammar_match :: "nat \<Rightarrow> string \<Rightarrow> string option \<Rightarrow> node res" where
  "grammar_match n text startRule =
     (let start = (case startRule of None \<Rightarrow> ''Schema'' | Some r \<Rightarrow> r) in
      case peg_eval n (is_syntactic start) (PSeq (PApply start) PEnd) 0 text of
        Match (ns, p, r) \<Rightarrow> (case ns of c # _ \<Rightarrow> Match c | [] \<Rightarrow> GrammarError)
      | NoMatch \<Rightarrow> NoMatch | OutOfFuel \<Rightarrow> OutOfFuel | GrammarError \<Rightarrow> GrammarError)"

section \<open>The semantic actions (semantics.ts)\<close>

text \<open>
  The operation \<open>toAST\<close>.  An action receives the text, the interval of its own node
  (for \<open>this.sourceString\<close>) and its children; a child is given as the pair of its node
  (for \<open>sourceString\<close> and \<open>children.length\<close>) and the value of its \<open>toAST()\<close>.
  The value for a shape of arguments that the engine never passes is \<open>undefined\<close>.
\<close>

type_synonym action = "string \<Rightarrow> nat \<times> nat \<Rightarrow> (node \<times> jsval) list \<Rightarrow> jsval"

definition sourceString :: "string \<Rightarrow> node \<Rightarrow> string" where
  "sourceString t k = substring t (nstart k) (nend k)"

definition is_string :: "jsval \<Rightarrow> bool" where
  "is_string v = (case v of JStr _ \<Rightarrow> True | _ \<Rightarrow> False)"

subsection \<open>Top level\<close>

definition Schema_init :: jsval where
  "Schema_init = JObj [(''name'', JStr ''database''), (''tables'', JArr []), (''refs'', JArr []),
     (''enums'', JArr []), (''tableGroups'', JArr []), (''project'', JUndefined),
     (''partials'', JArr [])]"

definition Schema_add :: "jsval \<Rightarrow> jsval \<Rightarrow> jsval" where
  "Schema_add schema ast =
     (if is_object ast \<and> has_prop ast ''type'' then
        (let ty = get_prop ast ''type'' in
         if ty = JStr ''project'' then
           set_prop (set_prop schema ''project'' ast) ''name'' (get_prop ast ''name'')
         else if ty = JStr ''table'' then push_prop schema ''tables'' ast
         else if ty = JStr ''tablePartial'' then
           push_prop (if truthy (get_prop schema ''partials'') then schema
                      else set_prop schema ''partials'' (JArr [])) ''partials'' ast
         else if ty = JStr ''ref'' then push_prop schema ''refs'' ast
         else if ty = JStr ''enum'' then push_prop schema ''enums'' ast
         else if ty = JStr ''tableGroup'' then push_prop schema ''tableGroups'' ast
         else schema)
      else schema)"

definition toAST_Schema :: action where
  "toAST_Schema t self args =
     (case args of [(_, elements)] \<Rightarrow> foldl Schema_add Schema_init (elems elements)
      | _ \<Rightarrow> JUndefined)"

subsection \<open>Project\<close>

definition toAST_Project :: action where
  "toAST_Project t self args =
     (case args of [_, (_, name), _, (_, props), _] \<Rightarrow>
        assign (JObj [(''type'', JStr ''project''), (''name'', name)]) props
      | _ \<Rightarrow> JUndefined)"

definition toAST_ProjectBody :: action where
  "toAST_ProjectBody t self args =
     (case args of [(_, properties)] \<Rightarrow>
        foldl (\<lambda>props p. set_prop props (str_of (get_prop p ''key'')) (get_prop p ''value''))
          (JObj []) (elems properties)
      | _ \<Rightarrow> JUndefined)"

definition toAST_ProjectProperty :: action where
  "toAST_ProjectProperty t self args =
     (case args of [(_, key), _, (_, val)] \<Rightarrow> JObj [(''key'', key), (''value'', val)]
      | _ \<Rightarrow> JUndefined)"

subsection \<open>Table\<close>

text \<open>The column object of a body element: \<open>{ name: element.name ?? "", type: dataType ?? "",
  ...columnProps }\<close>, where \<open>columnProps\<close> is the element without \<open>type\<close> and
  \<open>dataType\<close>.\<close>

definition Column_of :: "jsval \<Rightarrow> jsval" where
  "Column_of element =
     assign (JObj [(''name'', nullish (get_prop element ''name'') (JStr [])),
                   (''type'', nullish (get_prop element ''dataType'') (JStr []))])
            (delete_prop (delete_prop element ''type'') ''dataType'')"

text \<open>One step of the loop over the body elements of a table.\<close>

definition Table_element :: "jsval \<Rightarrow> jsval \<Rightarrow> jsval" where
  "Table_element result element =
     (if \<not> truthy element then result
      else let ty = get_prop element ''type'' in
        if ty = JStr ''column'' then
          (let col = Column_of element;
               i = length (elems (get_prop result ''columns''))
           in push_prop (push_prop result ''columns'' col) ''elements''
                (JObj [(''type'', JStr ''column''), (''column'', JRef i)]))
        else if ty = JStr ''indexes'' then
          set_prop result ''indexes'' (nullish (get_prop element ''indexes'') (JArr []))
        else if ty = JStr ''constraints'' then
          set_prop result ''constraints'' (get_prop element ''constraints'')
        else if ty = JStr ''note'' then set_prop result ''note'' (get_prop element ''value'')
        else if ty = JStr ''headerColor'' then
          set_prop result ''headerColor'' (get_prop element ''value'')
        else if ty = JStr ''partialReference'' then
          push_prop result ''elements''
            (JObj [(''type'', JStr ''partialRef''),
                   (''ref'', JObj [(''name'', nullish (get_prop element ''name'') (JStr []))])])
        else result)"

definition Table_init :: "node \<Rightarrow> jsval \<Rightarrow> jsval \<Rightarrow> jsval" where
  "Table_init alias nameInfo aliasv =
     (let result = JObj [(''type'', JStr ''table''),
                         (''name'', if is_string nameInfo then nameInfo else get_prop nameInfo ''name''),
                         (''columns'', JArr []), (''indexes'', JArr []), (''elements'', JArr [])];
          result = (if is_object nameInfo \<and> has_prop nameInfo ''schema''
                    then set_prop result ''schema'' (get_prop nameInfo ''schema'') else result)
      in if children alias \<noteq> [] then set_prop result ''alias'' (first_of aliasv) else result)"

definition toAST_Table :: action where
  "toAST_Table t self args =
     (case args of [_, (_, nameInfo), (alias, aliasv), _, (_, body), _] \<Rightarrow>
        foldl Table_element (Table_init alias nameInfo aliasv) (elems body)
      | _ \<Rightarrow> JUndefined)"

definition toAST_QualifiedIdentifier_qualified :: action where
  "toAST_QualifiedIdentifier_qualified t self args =
     (case args of [(_, schema), _, (_, name)] \<Rightarrow> JObj [(''schema'', schema), (''name'', name)]
      | _ \<Rightarrow> JUndefined)"

definition toAST_QualifiedIdentifier_simple :: action where
  "toAST_QualifiedIdentifier_simple t self args =
     (case args of [(_, name)] \<Rightarrow> name | _ \<Rightarrow> JUndefined)"

definition toAST_TableAlias :: action where
  "toAST_TableAlias t self args =
     (case args of [_, (_, name)] \<Rightarrow> name | _ \<Rightarrow> JUndefined)"

definition toAST_TableBody :: action where
  "toAST_TableBody t self args =
     (case args of [(_, elements)] \<Rightarrow> JArr (elems elements) | _ \<Rightarrow> JUndefined)"

subsection \<open>TablePartial\<close>

definition TablePartial_element :: "jsval \<Rightarrow> jsval \<Rightarrow> jsval" where
  "TablePartial_element result element =
     (let ty = get_prop element ''type'' in
        if ty = JStr ''column'' then push_prop result ''columns'' (Column_of element)
        else if ty = JStr ''indexes'' then
          set_prop result ''indexes'' (nullish (get_prop element ''indexes'') (JArr []))
        else if ty = JStr ''constraints'' then
          set_prop result ''constraints'' (get_prop element ''constraints'')
        else if ty = JStr ''note'' then set_prop result ''note'' (get_prop element ''value'')
        else result)"

definition toAST_TablePartial :: action where
  "toAST_TablePartial t self args =
     (case args of [_, (_, name), _, (_, body), _] \<Rightarrow>
        foldl TablePartial_element
          (JObj [(''type'', JStr ''tablePartial''), (''name'', name), (''columns'', JArr []),
                 (''indexes'', JArr [])])
          (elems body)
      | _ \<Rightarrow> JUndefined)"

definition toAST_TablePartialBody :: action where
  "toAST_TablePartialBody t self args =
     (case args of [(_, elements)] \<Rightarrow> JArr (elems elements) | _ \<Rightarrow> JUndefined)"

definition toAST_PartialReference :: action where
  "toAST_PartialReference t self args =
     (case args of [_, (_, name)] \<Rightarrow> JObj [(''type'', JStr ''partialReference''), (''name'', name)]
      | _ \<Rightarrow> JUndefined)"

subsection \<open>Column\<close>

definition toAST_Column :: action where
  "toAST_Column t self args =
     (case args of [(_, name), (_, dataType), (settings, settingsv)] \<Rightarrow>
        (let result = JObj [(''type'', JStr ''column''), (''name'', name), (''dataType'', dataType)]
         in if children settings \<noteq> [] then assign result (first_of settingsv) else result)
      | _ \<Rightarrow> JUndefined)"

definition toAST_DataType_array :: action where
  "toAST_DataType_array t self args =
     (case args of [(_, ty), _] \<Rightarrow> JStr (str_of ty @ ''[]'') | _ \<Rightarrow> JUndefined)"

definition toAST_DataType_parameterized :: action where
  "toAST_DataType_parameterized t self args =
     (case args of [(_, ty), _, (params, _), _] \<Rightarrow>
        JStr (str_of ty @ ''('' @ sourceString t params @ '')'')
      | _ \<Rightarrow> JUndefined)"

definition toAST_DataType_simple :: action where
  "toAST_DataType_simple t self args = (case args of [(_, ty)] \<Rightarrow> ty | _ \<Rightarrow> JUndefined)"

text \<open>The settings lists (of a column, an index, a constraint, a reference): the
  settings are assigned onto an empty object in the order written.\<close>

definition merge_settings :: "jsval list \<Rightarrow> jsval" where
  "merge_settings settings = foldl assign (JObj []) settings"

definition toAST_ColumnSettings :: action where
  "toAST_ColumnSettings t self args =
     (case args of [_, (_, settings), _] \<Rightarrow> merge_settings (elems settings) | _ \<Rightarrow> JUndefined)"

definition toAST_ColumnSetting_pk :: action where
  "toAST_ColumnSetting_pk t self args = JObj [(''pk'', JBool True)]"

definition toAST_ColumnSetting_primaryKey :: action where
  "toAST_ColumnSetting_primaryKey t self args = JObj [(''pk'', JBool True)]"

definition toAST_ColumnSetting_unique :: action where
  "toAST_ColumnSetting_unique t self args = JObj [(''unique'', JBool True)]"

definition toAST_ColumnSetting_notNull :: action where
  "toAST_ColumnSetting_notNull t self args = JObj [(''notNull'', JBool True)]"

definition toAST_ColumnSetting_null :: action where
  "toAST_ColumnSetting_null t self args = JObj [(''notNull'', JBool False)]"

definition toAST_ColumnSetting_increment :: action where
  "toAST_ColumnSetting_increment t self args = JObj [(''increment'', JBool True)]"

definition toAST_ColumnSetting_identityAlways :: action where
  "toAST_ColumnSetting_identityAlways t self args = JObj [(''identityGeneration'', JStr ''always'')]"

definition toAST_ColumnSetting_identityByDefault :: action where
  "toAST_ColumnSetting_identityByDefault t self args =
     JObj [(''identityGeneration'', JStr ''by default'')]"

definition toAST_ColumnSetting_generatedStored :: action where
  "toAST_ColumnSetting_generatedStored t self args =
     (case args of [_, _, _, (expr, _), _] \<Rightarrow>
        JObj [(''generatedExpression'', JStr (slice_1_m1 (sourceString t expr))),
              (''generatedStored'', JBool True)]
      | _ \<Rightarrow> JUndefined)"

definition toAST_ColumnSetting_check :: action where
  "toAST_ColumnSetting_check t self args =
     (case args of [_, (expr, _)] \<Rightarrow> JObj [(''check'', JStr (slice_1_m1 (sourceString t expr)))]
      | _ \<Rightarrow> JUndefined)"

definition toAST_ColumnDefault :: action where
  "toAST_ColumnDefault t self args =
     (case args of [_, _, (_, val)] \<Rightarrow> JObj [(''default'', val)] | _ \<Rightarrow> JUndefined)"

definition toAST_ColumnNote :: action where
  "toAST_ColumnNote t self args =
     (case args of [_, _, (_, val)] \<Rightarrow> JObj [(''note'', val)] | _ \<Rightarrow> JUndefined)"

definition toAST_ColumnRef :: action where
  "toAST_ColumnRef t self args =
     (case args of [_, _, (_, ty), (_, endpoint)] \<Rightarrow>
        JObj [(''ref'', JObj [(''type'', ty), (''to'', endpoint)])]
      | _ \<Rightarrow> JUndefined)"

definition toAST_DefaultValue_expression :: action where
  "toAST_DefaultValue_expression t self args =
     (case args of [(expr, _)] \<Rightarrow>
        JObj [(''type'', JStr ''expression''), (''value'', JStr (slice_1_m1 (sourceString t expr)))]
      | _ \<Rightarrow> JUndefined)"

definition toAST_DefaultValue_literal :: action where
  "toAST_DefaultValue_literal t self args = (case args of [(_, val)] \<Rightarrow> val | _ \<Rightarrow> JUndefined)"

subsection \<open>Indexes\<close>

definition toAST_Indexes :: action where
  "toAST_Indexes t self args =
     (case args of [_, _, (_, indexes), _] \<Rightarrow>
        JObj [(''type'', JStr ''indexes''), (''indexes'', JArr (elems indexes))]
      | _ \<Rightarrow> JUndefined)"

definition toAST_Index_composite :: action where
  "toAST_Index_composite t self args =
     (case args of [_, (_, columns), _, (settings, settingsv)] \<Rightarrow>
        (let index = JObj [(''columns'', JArr (elems columns))]
         in if children settings \<noteq> [] then assign index (first_of settingsv) else index)
      | _ \<Rightarrow> JUndefined)"

definition toAST_Index_single :: action where
  "toAST_Index_single t self args =
     (case args of [(_, column), (settings, settingsv)] \<Rightarrow>
        (let index = JObj [(''columns'', JArr [JObj [(''name'', column)]])]
         in if children settings \<noteq> [] then assign index (first_of settingsv) else index)
      | _ \<Rightarrow> JUndefined)"

definition toAST_IndexColumn :: action where
  "toAST_IndexColumn t self args =
     (case args of [(_, name), (sortOrder, sortOrderv)] \<Rightarrow>
        (let column = JObj [(''name'', name)]
         in if children sortOrder \<noteq> [] then set_prop column ''sort'' (first_of sortOrderv)
            else column)
      | _ \<Rightarrow> JUndefined)"

definition toAST_SortOrder_asc :: action where
  "toAST_SortOrder_asc t self args = JStr ''asc''"

definition toAST_SortOrder_desc :: action where
  "toAST_SortOrder_desc t self args = JStr ''desc''"

definition toAST_IndexSettings :: action where
  "toAST_IndexSettings t self args =
     (case args of [_, (_, settings), _] \<Rightarrow> merge_settings (elems settings) | _ \<Rightarrow> JUndefined)"

definition toAST_IndexType :: action where
  "toAST_IndexType t self args =
     (case args of [_, _, (_, typeName)] \<Rightarrow> JObj [(''type'', typeName)] | _ \<Rightarrow> JUndefined)"

definition toAST_IndexName :: action where
  "toAST_IndexName t self args =
     (case args of [_, _, (_, val)] \<Rightarrow> JObj [(''name'', val)] | _ \<Rightarrow> JUndefined)"

definition toAST_IndexWhere :: action where
  "toAST_IndexWhere t self args =
     (case args of [_, _, (_, val)] \<Rightarrow> JObj [(''where'', val)] | _ \<Rightarrow> JUndefined)"

definition toAST_IndexSetting_pk :: action where
  "toAST_IndexSetting_pk t self args = JObj [(''pk'', JBool True)]"

definition toAST_IndexSetting_unique :: action where
  "toAST_IndexSetting_unique t self args = JObj [(''unique'', JBool True)]"

definition toAST_IndexTypeName_btree :: action where
  "toAST_IndexTypeName_btree t self args = JStr ''btree''"

definition toAST_IndexTypeName_hash :: action where
  "toAST_IndexTypeName_hash t self args = JStr ''hash''"

definition toAST_IndexTypeName_gin :: action where
  "toAST_IndexTypeName_gin t self args = JStr ''gin''"

definition toAST_IndexTypeName_gist :: action where
  "toAST_IndexTypeName_gist t self args = JStr ''gist''"

definition toAST_IndexTypeName_spgist :: action where
  "toAST_IndexTypeName_spgist t self args = JStr ''spgist''"

definition toAST_IndexTypeName_brin :: action where
  "toAST_IndexTypeName_brin t self args = JStr ''brin''"

definition toAST_IndexTypeName_custom :: action where
  "toAST_IndexTypeName_custom t self args =
     (case args of [(ty, _)] \<Rightarrow> JStr (map toLowerCase (sourceString t ty)) | _ \<Rightarrow> JUndefined)"

subsection \<open>Constraints\<close>

definition toAST_Constraints :: action where
  "toAST_Constraints t self args =
     (case args of [_, _, (_, constraints), _] \<Rightarrow>
        JObj [(''type'', JStr ''constraints''), (''constraints'', JArr (elems constraints))]
      | _ \<Rightarrow> JUndefined)"

definition toAST_Constraint :: action where
  "toAST_Constraint t self args =
     (case args of [(name, namev), (_, ty), (settings, settingsv)] \<Rightarrow>
        (let constraint = ty;
             constraint = (if children name \<noteq> [] then set_prop constraint ''name'' (first_of namev)
                           else constraint)
         in if children settings \<noteq> [] then assign constraint (first_of settingsv) else constraint)
      | _ \<Rightarrow> JUndefined)"

definition toAST_ConstraintName :: action where
  "toAST_ConstraintName t self args = (case args of [_, (_, name)] \<Rightarrow> name | _ \<Rightarrow> JUndefined)"

definition toAST_ConstraintType_check :: action where
  "toAST_ConstraintType_check t self args =
     (case args of [_, (expr, _)] \<Rightarrow>
        JObj [(''type'', JStr ''check''), (''expression'', JStr (slice_1_m1 (sourceString t expr)))]
      | _ \<Rightarrow> JUndefined)"

definition toAST_ConstraintType_unique :: action where
  "toAST_ConstraintType_unique t self args =
     (case args of [_, _, (_, columns), _] \<Rightarrow>
        JObj [(''type'', JStr ''unique''), (''columns'', JArr (elems columns))]
      | _ \<Rightarrow> JUndefined)"

definition toAST_ConstraintType_primaryKey :: action where
  "toAST_ConstraintType_primaryKey t self args =
     (case args of [_, _, _, (_, columns), _] \<Rightarrow>
        JObj [(''type'', JStr ''primary_key''), (''columns'', JArr (elems columns))]
      | _ \<Rightarrow> JUndefined)"

definition toAST_ConstraintType_exclude :: action where
  "toAST_ConstraintType_exclude t self args =
     (case args of [_, _, (_, method), _, (_, column), _, (operator, _), _] \<Rightarrow>
        JObj [(''type'', JStr ''exclude''), (''using'', method), (''columns'', JArr [column]),
              (''withOperator'', JStr (sourceString t operator))]
      | _ \<Rightarrow> JUndefined)"

definition toAST_ExcludeOperator :: action where
  "toAST_ExcludeOperator t self args =
     (case args of [(op, _)] \<Rightarrow> JStr (sourceString t op) | _ \<Rightarrow> JUndefined)"

definition toAST_ConstraintSettings :: action where
  "toAST_ConstraintSettings t self args =
     (case args of [_, (_, settings), _] \<Rightarrow> merge_settings (elems settings) | _ \<Rightarrow> JUndefined)"

definition toAST_ConstraintSetting_deferrable :: action where
  "toAST_ConstraintSetting_deferrable t self args = JObj [(''deferrable'', JBool True)]"

definition toAST_ConstraintSetting_notDeferrable :: action where
  "toAST_ConstraintSetting_notDeferrable t self args = JObj [(''deferrable'', JBool False)]"

definition toAST_ConstraintSetting_initiallyDeferred :: action where
  "toAST_ConstraintSetting_initiallyDeferred t self args = JObj [(''initiallyDeferred'', JBool True)]"

definition toAST_ConstraintSetting_initiallyImmediate :: action where
  "toAST_ConstraintSetting_initiallyImmediate t self args = JObj [(''initiallyDeferred'', JBool False)]"

subsection \<open>References\<close>

definition toAST_Ref :: action where
  "toAST_Ref t self args =
     (case args of [_, (name, namev), _, (_, from), (_, refType), (_, to), (settings, settingsv)] \<Rightarrow>
        (let result = JObj [(''type'', JStr ''ref''), (''from'', from), (''to'', to),
                            (''refType'', refType)];
             result = (if children name \<noteq> [] then set_prop result ''name'' (first_of namev)
                       else result)
         in if children settings \<noteq> [] then assign result (first_of settingsv) else result)
      | _ \<Rightarrow> JUndefined)"

definition toAST_RefEndpoint_compositeQualified :: action where
  "toAST_RefEndpoint_compositeQualified t self args =
     (case args of [(_, schema), _, (_, table), _, _, (_, columns), _] \<Rightarrow>
        JObj [(''schema'', schema), (''table'', table), (''columns'', JArr (elems columns))]
      | _ \<Rightarrow> JUndefined)"

definition toAST_RefEndpoint_composite :: action where
  "toAST_RefEndpoint_composite t self args =
     (case args of [(_, table), _, _, (_, columns), _] \<Rightarrow>
        JObj [(''table'', table), (''columns'', JArr (elems columns))]
      | _ \<Rightarrow> JUndefined)"

definition toAST_RefEndpoint_simpleQualified :: action where
  "toAST_RefEndpoint_simpleQualified t self args =
     (case args of [(_, schema), _, (_, table), _, (_, column)] \<Rightarrow>
        JObj [(''schema'', schema), (''table'', table), (''column'', column)]
      | _ \<Rightarrow> JUndefined)"

definition toAST_RefEndpoint_simple :: action where
  "toAST_RefEndpoint_simple t self args =
     (case args of [(_, table), _, (_, column)] \<Rightarrow> JObj [(''table'', table), (''column'', column)]
      | _ \<Rightarrow> JUndefined)"

definition toAST_RefType_many :: action where
  "toAST_RefType_many t self args = JStr ''<>''"

definition toAST_RefType_to :: action where
  "toAST_RefType_to t self args = JStr ''>''"

definition toAST_RefType_from :: action where
  "toAST_RefType_from t self args = JStr ''<''"

definition toAST_RefType_one :: action where
  "toAST_RefType_one t self args = JStr ''-''"

definition toAST_RefSettings :: action where
  "toAST_RefSettings t self args =
     (case args of [_, (_, settings), _] \<Rightarrow> merge_settings (elems settings) | _ \<Rightarrow> JUndefined)"

definition toAST_RefSetting_delete :: action where
  "toAST_RefSetting_delete t self args = (case args of [(_, setting)] \<Rightarrow> setting | _ \<Rightarrow> JUndefined)"

definition toAST_RefSetting_update :: action where
  "toAST_RefSetting_update t self args = (case args of [(_, setting)] \<Rightarrow> setting | _ \<Rightarrow> JUndefined)"

definition toAST_RefOnDelete :: action where
  "toAST_RefOnDelete t self args =
     (case args of [_, _, (_, act)] \<Rightarrow> JObj [(''onDelete'', act)] | _ \<Rightarrow> JUndefined)"

definition toAST_RefOnUpdate :: action where
  "toAST_RefOnUpdate t self args =
     (case args of [_, _, (_, act)] \<Rightarrow> JObj [(''onUpdate'', act)] | _ \<Rightarrow> JUndefined)"

definition toAST_RefAction_cascade :: action where
  "toAST_RefAction_cascade t self args = JStr ''cascade''"

definition toAST_RefAction_restrict :: action where
  "toAST_RefAction_restrict t self args = JStr ''restrict''"

definition toAST_RefAction_setNull :: action where
  "toAST_RefAction_setNull t self args = JStr ''set null''"

definition toAST_RefAction_setDefault :: action where
  "toAST_RefAction_setDefault t self args = JStr ''set default''"

definition toAST_RefAction_noAction :: action where
  "toAST_RefAction_noAction t self args = JStr ''no action''"

subsection \<open>Enums, table groups, notes\<close>

definition toAST_Enum :: action where
  "toAST_Enum t self args =
     (case args of [_, (_, name), _, (_, vals), _] \<Rightarrow>
        JObj [(''type'', JStr ''enum''), (''name'', name), (''values'', JArr (elems vals))]
      | _ \<Rightarrow> JUndefined)"

definition toAST_EnumValue :: action where
  "toAST_EnumValue t self args =
     (case args of [(_, name), (note, notev)] \<Rightarrow>
        (let val = JObj [(''name'', name)]
         in if children note \<noteq> [] then set_prop val ''note'' (first_of notev) else val)
      | _ \<Rightarrow> JUndefined)"

definition toAST_EnumValueNote :: action where
  "toAST_EnumValueNote t self args =
     (case args of [_, _, _, (_, val), _] \<Rightarrow> val | _ \<Rightarrow> JUndefined)"

definition toAST_TableGroup :: action where
  "toAST_TableGroup t self args =
     (case args of [_, (_, name), _, (_, tables), _] \<Rightarrow>
        JObj [(''type'', JStr ''tableGroup''), (''name'', name), (''tables'', JArr (elems tables))]
      | _ \<Rightarrow> JUndefined)"

definition toAST_Note :: action where
  "toAST_Note t self args =
     (case args of [_, _, (_, val)] \<Rightarrow> JObj [(''type'', JStr ''note''), (''value'', val)]
      | _ \<Rightarrow> JUndefined)"

definition toAST_HeaderColor :: action where
  "toAST_HeaderColor t self args =
     (case args of [_, _, (val, valv)] \<Rightarrow>
        JObj [(''type'', JStr ''headerColor''),
              (''value'', if startsWith (sourceString t val) (CHR ''#'')
                          then JStr (sourceString t val) else valv)]
      | _ \<Rightarrow> JUndefined)"

definition toAST_HexColor :: action where
  "toAST_HexColor t self args = JStr (substring t (fst self) (snd self))"

subsection \<open>Values\<close>

definition toAST_tripleString :: action where
  "toAST_tripleString t self args =
     (case args of [_, (chars, _), _] \<Rightarrow> JStr (sourceString t chars) | _ \<Rightarrow> JUndefined)"

definition toAST_doubleString :: action where
  "toAST_doubleString t self args =
     (case args of [_, (_, chars), _] \<Rightarrow> JStr (join_empty (elems chars)) | _ \<Rightarrow> JUndefined)"

definition toAST_doubleStringChar_escape :: action where
  "toAST_doubleStringChar_escape t self args =
     (case args of [_, (char, _)] \<Rightarrow>
        (let c = sourceString t char in
         if c = [dquote] then JStr [dquote]
         else if c = [backslash] then JStr [backslash]
         else if c = ''n'' then JStr [newline_char]
         else if c = ''r'' then JStr [cr_char]
         else if c = ''t'' then JStr [tab_char]
         else JStr c)
      | _ \<Rightarrow> JUndefined)"

definition toAST_doubleStringChar_normal :: action where
  "toAST_doubleStringChar_normal t self args =
     (case args of [(char, _)] \<Rightarrow> JStr (sourceString t char) | _ \<Rightarrow> JUndefined)"

definition toAST_singleString :: action where
  "toAST_singleString t self args =
     (case args of [_, (_, chars), _] \<Rightarrow> JStr (join_empty (elems chars)) | _ \<Rightarrow> JUndefined)"

definition toAST_singleStringChar_escape :: action where
  "toAST_singleStringChar_escape t self args =
     (case args of [_, (char, _)] \<Rightarrow>
        (let c = sourceString t char in
         if c = [squote] then JStr [squote]
         else if c = [backslash] then JStr [backslash]
         else if c = ''n'' then JStr [newline_char]
         else if c = ''r'' then JStr [cr_char]
         else if c = ''t'' then JStr [tab_char]
         else JStr c)
      | _ \<Rightarrow> JUndefined)"

definition toAST_singleStringChar_normal :: action where
  "toAST_singleStringChar_normal t self args =
     (case args of [(char, _)] \<Rightarrow> JStr (sourceString t char) | _ \<Rightarrow> JUndefined)"

definition toAST_backtickString :: action where
  "toAST_backtickString t self args =
     (case args of [_, (chars, _), _] \<Rightarrow> JStr (sourceString t chars) | _ \<Rightarrow> JUndefined)"

definition toAST_number :: action where
  "toAST_number t self args = JNum (substring t (fst self) (snd self))"

definition toAST_boolean_true :: action where
  "toAST_boolean_true t self args = JBool True"

definition toAST_boolean_false :: action where
  "toAST_boolean_false t self args = JBool False"

definition toAST_identifier :: action where
  "toAST_identifier t self args = (case args of [(_, name)] \<Rightarrow> name | _ \<Rightarrow> JUndefined)"

definition toAST_quotedIdentifier :: action where
  "toAST_quotedIdentifier t self args =
     (case args of [_, (chars, _), _] \<Rightarrow> JStr (sourceString t chars) | _ \<Rightarrow> JUndefined)"

definition toAST_identifierName :: action where
  "toAST_identifierName t self args = JStr (substring t (fst self) (snd self))"

definition toAST_newline_lf :: action where
  "toAST_newline_lf t self args = JStr [newline_char]"

definition toAST_newline_cr :: action where
  "toAST_newline_cr t self args = JStr [cr_char]"

definition toAST_newline_crlf :: action where
  "toAST_newline_crlf t self args = JStr [cr_char, newline_char]"

subsection \<open>The operation\<close>

text \<open>The action dictionary passed to \<open>addOperation("toAST", ...)\<close>.\<close>

definition semantic_actions :: "(string \<times> action) list" where
  "semantic_actions = [
    (''Schema'', toAST_Schema),
    (''Project'', toAST_Project),
    (''ProjectBody'', toAST_ProjectBody),
    (''ProjectProperty'', toAST_ProjectProperty),
    (''Table'', toAST_Table),
    (''QualifiedIdentifier_qualified'', toAST_QualifiedIdentifier_qualified),
    (''QualifiedIdentifier_simple'', toAST_QualifiedIdentifier_simple),
    (''TableAlias'', toAST_TableAlias),
    (''TableBody'', toAST_TableBody),
    (''TablePartial'', toAST_TablePartial),
    (''TablePartialBody'', toAST_TablePartialBody),
    (''PartialReference'', toAST_PartialReference),
    (''Column'', toAST_Column),
    (''DataType_array'', toAST_DataType_array),
    (''DataType_parameterized'', toAST_DataType_parameterized),
    (''DataType_simple'', toAST_DataType_simple),
    (''ColumnSettings'', toAST_ColumnSettings),
    (''ColumnSetting_pk'', toAST_ColumnSetting_pk),
    (''ColumnSetting_primaryKey'', toAST_ColumnSetting_primaryKey),
    (''ColumnSetting_unique'', toAST_ColumnSetting_unique),
    (''ColumnSetting_notNull'', toAST_ColumnSetting_notNull),
    (''ColumnSetting_null'', toAST_ColumnSetting_null),
    (''ColumnSetting_increment'', toAST_ColumnSetting_increment),
    (''ColumnSetting_identityAlways'', toAST_ColumnSetting_identityAlways),
    (''ColumnSetting_identityByDefault'', toAST_ColumnSetting_identityByDefault),
    (''ColumnSetting_generatedStored'', toAST_ColumnSetting_generatedStored),
    (''ColumnSetting_check'', toAST_ColumnSetting_check),
    (''ColumnDefault'', toAST_ColumnDefault),
    (''ColumnNote'', toAST_ColumnNote),
    (''ColumnRef'', toAST_ColumnRef),
    (''DefaultValue_expression'', toAST_DefaultValue_expression),
    (''DefaultValue_literal'', toAST_DefaultValue_literal),
    (''Indexes'', toAST_Indexes),
    (''Index_composite'', toAST_Index_composite),
    (''Index_single'', toAST_Index_single),
    (''IndexColumn'', toAST_IndexColumn),
    (''SortOrder_asc'', toAST_SortOrder_asc),
    (''SortOrder_desc'', toAST_SortOrder_desc),
    (''IndexSettings'', toAST_IndexSettings),
    (''IndexType'', toAST_IndexType),
    (''IndexName'', toAST_IndexName),
    (''IndexWhere'', toAST_IndexWhere),
    (''IndexSetting_pk'', toAST_IndexSetting_pk),
    (''IndexSetting_unique'', toAST_IndexSetting_unique),
    (''IndexTypeName_btree'', toAST_IndexTypeName_btree),
    (''IndexTypeName_hash'', toAST_IndexTypeName_hash),
    (''IndexTypeName_gin'', toAST_IndexTypeName_gin),
    (''IndexTypeName_gist'', toAST_IndexTypeName_gist),
    (''IndexTypeName_spgist'', toAST_IndexTypeName_spgist),
    (''IndexTypeName_brin'', toAST_IndexTypeName_brin),
    (''IndexTypeName_custom'', toAST_IndexTypeName_custom),
    (''Constraints'', toAST_Constraints),
    (''Constraint'', toAST_Constraint),
    (''ConstraintName'', toAST_ConstraintName),
    (''ConstraintType_check'', toAST_ConstraintType_check),
    (''ConstraintType_unique'', toAST_ConstraintType_unique),
    (''ConstraintType_primaryKey'', toAST_ConstraintType_primaryKey),
    (''ConstraintType_exclude'', toAST_ConstraintType_exclude),
    (''ExcludeOperator'', toAST_ExcludeOperator),
    (''ConstraintSettings'', toAST_ConstraintSettings),
    (''ConstraintSetting_deferrable'', toAST_ConstraintSetting_deferrable),
    (''ConstraintSetting_notDeferrable'', toAST_ConstraintSetting_notDeferrable),
    (''ConstraintSetting_initiallyDeferred'', toAST_ConstraintSetting_initiallyDeferred),
    (''ConstraintSetting_initiallyImmediate'', toAST_ConstraintSetting_initiallyImmediate),
    (''Ref'', toAST_Ref),
    (''RefEndpoint_compositeQualified'', toAST_RefEndpoint_compositeQualified),
    (''RefEndpoint_composite'', toAST_RefEndpoint_composite),
    (''RefEndpoint_simpleQualified'', toAST_RefEndpoint_simpleQualified),
    (''RefEndpoint_simple'', toAST_RefEndpoint_simple),
    (''RefType_many'', toAST_RefType_many),
    (''RefType_to'', toAST_RefType_to),
    (''RefType_from'', toAST_RefType_from),
    (''RefType_one'', toAST_RefType_one),
    (''RefSettings'', toAST_RefSettings),
    (''RefSetting_delete'', toAST_RefSetting_delete),
    (''RefSetting_update'', toAST_RefSetting_update),
    (''RefOnDelete'', toAST_RefOnDelete),
    (''RefOnUpdate'', toAST_RefOnUpdate),
    (''RefAction_cascade'', toAST_RefAction_cascade),
    (''RefAction_restrict'', toAST_RefAction_restrict),
    (''RefAction_setNull'', toAST_RefAction_setNull),
    (''RefAction_setDefault'', toAST_RefAction_setDefault),
    (''RefAction_noAction'', toAST_RefAction_noAction),
    (''Enum'', toAST_Enum),
    (''EnumValue'', toAST_EnumValue),
    (''EnumValueNote'', toAST_EnumValueNote),
    (''TableGroup'', toAST_TableGroup),
    (''Note'', toAST_Note),
    (''HeaderColor'', toAST_HeaderColor),
    (''HexColor'', toAST_HexColor),
    (''tripleString'', toAST_tripleString),
    (''doubleString'', toAST_doubleString),
    (''doubleStringChar_escape'', toAST_doubleStringChar_escape),
    (''doubleStringChar_normal'', toAST_doubleStringChar_normal),
    (''singleString'', toAST_singleString),
    (''singleStringChar_escape'', toAST_singleStringChar_escape),
    (''singleStringChar_normal'', toAST_singleStringChar_normal),
    (''backtickString'', toAST_backtickString),
    (''number'', toAST_number),
    (''boolean_true'', toAST_boolean_true),
    (''boolean_false'', toAST_boolean_false),
    (''identifier'', toAST_identifier),
    (''quotedIdentifier'', toAST_quotedIdentifier),
    (''identifierName'', toAST_identifierName),
    (''newline_lf'', toAST_newline_lf),
    (''newline_cr'', toAST_newline_cr),
    (''newline_crlf'', toAST_newline_crlf)
  ]"

definition semantic_action :: "string \<Rightarrow> action option" where
  "semantic_action r = map_of semantic_actions r"

text \<open>\<open>node.toAST()\<close>: a terminal gives its source text (\<open>_terminal\<close>), an iteration the
  array of its children's values (\<open>_iter\<close>), a nonterminal the result of the action of
  its rule; a rule without an action passes the value of its only child through.\<close>

fun toAST :: "string \<Rightarrow> node \<Rightarrow> jsval" where
  "toAST t (TerminalNode s e) = JStr (substring t s e)"
| "toAST t (IterationNode ks s e) = JArr (map (toAST t) ks)"
| "toAST t (NonterminalNode r ks s e) =
     (case semantic_action r of
        Some act \<Rightarrow> act t (s, e) (map (\<lambda>k. (k, toAST t k)) ks)
      | None \<Rightarrow> (case ks of [k] \<Rightarrow> toAST t k | _ \<Rightarrow> JUndefined))"

text \<open>Whether \<open>toAST\<close> reaches a node whose rule has neither an action nor exactly one
  child; the engine then throws "Missing semantic action".\<close>

fun missing_action :: "node \<Rightarrow> bool" where
  "missing_action (TerminalNode s e) = False"
| "missing_action (IterationNode ks s e) = list_ex missing_action ks"
| "missing_action (NonterminalNode r ks s e) =
     (case semantic_action r of
        Some act \<Rightarrow> False
      | None \<Rightarrow> (case ks of [k] \<Rightarrow> missing_action k | _ \<Rightarrow> True))"

section \<open>The parser (parser.ts)\<close>

subsection \<open>Type mappings\<close>

text \<open>A \<open>Record<string, string>\<close>: the own properties of the object, in insertion order.\<close>

type_synonym typeMappings = "(string \<times> string) list"

text \<open>The constructor: the default mappings, overlaid by the caller's.\<close>

definition default_typeMappings :: typeMappings where
  "default_typeMappings = [(''kinstant'', ''timestamp with time zone''), (''kjson'', ''jsonb'')]"

definition Parser_typeMappings :: "typeMappings \<Rightarrow> typeMappings" where
  "Parser_typeMappings options = foldl (\<lambda>m (k, v). AList.update k v m) default_typeMappings options"

text \<open>The properties an object literal inherits from \<open>Object.prototype\<close> (in the runtime
  the parser is written for, which has no \<open>__proto__\<close> accessor); each is a function.\<close>

definition Object_prototype :: "string list" where
  "Object_prototype = [''constructor'', ''__defineGetter__'', ''__defineSetter__'',
     ''hasOwnProperty'', ''__lookupGetter__'', ''__lookupSetter__'', ''isPrototypeOf'',
     ''propertyIsEnumerable'', ''toString'', ''valueOf'', ''toLocaleString'']"

text \<open>\<open>this.typeMappings[type]\<close>: an own property, else an inherited one, else
  \<open>undefined\<close>.\<close>

definition typeMappings_get :: "typeMappings \<Rightarrow> string \<Rightarrow> jsval" where
  "typeMappings_get m k =
     (case map_of m k of Some v \<Rightarrow> JStr v
      | None \<Rightarrow> if k \<in> set Object_prototype then JFun k else JUndefined)"

definition mapType :: "typeMappings \<Rightarrow> jsval \<Rightarrow> jsval" where
  "mapType m ty = or_else (typeMappings_get m (str_of ty)) ty"

subsection \<open>Errors\<close>

text \<open>What the engine reports for a text that does not match: the input, the message,
  the offset of the rightmost failure (\<open>getInterval().startIdx\<close>) and, when it has one, the
  list of expected alternatives.\<close>

record match_failure =
  input :: string
  message :: string
  startIdx :: nat
  expected :: "string list option"

datatype MatchResult = Succeeded node | Failed match_failure

record ParseError =
  err_message :: string
  err_line :: nat
  err_column :: nat
  err_expected :: "string list"
  err_input :: string

datatype error = SyntaxError ParseError | TypeError | MissingSemanticAction

definition new_ParseError :: "match_failure \<Rightarrow> ParseError" where
  "new_ParseError m =
     (let lines = split_newline (take (startIdx m) (input m)) in
      \<lparr> err_message = (if message m = [] then ''Parse error'' else message m),
        err_line = length lines,
        err_column = length (last lines) + 1,
        err_expected = (case expected m of Some xs \<Rightarrow> xs | None \<Rightarrow> []),
        err_input = input m \<rparr>)"

definition getFormattedMessage :: "ParseError \<Rightarrow> string" where
  "getFormattedMessage e =
     (let lines = split_newline (err_input e);
          errorLine = (if err_line e - 1 < length lines then lines ! (err_line e - 1)
                       else ''undefined'');
          pointer = replicate (err_column e - 1) (CHR '' '') @ ''^''
      in err_message e @ [newline_char, newline_char] @
         ''Line '' @ show_nat (err_line e) @ '', column '' @ show_nat (err_column e) @ '':'' @
         [newline_char] @ errorLine @ [newline_char] @ pointer)"

subsection \<open>parse and validate\<close>

fun map_result :: "('a \<Rightarrow> error + 'b) \<Rightarrow> 'a list \<Rightarrow> error + 'b list" where
  "map_result f [] = Inr []"
| "map_result f (x # xs) =
     (case f x of Inl e \<Rightarrow> Inl e
      | Inr y \<Rightarrow> (case map_result f xs of Inl e \<Rightarrow> Inl e | Inr ys \<Rightarrow> Inr (y # ys)))"

text \<open>\<open>for (const x of v)\<close>: an array gives its elements, a string its characters; any
  other value is not iterable.\<close>

definition iterate :: "jsval \<Rightarrow> error + jsval list" where
  "iterate v = (case v of JArr xs \<Rightarrow> Inr xs | JStr s \<Rightarrow> Inr (map (\<lambda>c. JStr [c]) s)
                | _ \<Rightarrow> Inl TypeError)"

text \<open>The body of the inner loop: \<open>column.type = this.mapType(column.dataType || column.type);
  delete column.dataType\<close>.  The module is strict code, so the assignment to a property
  of a primitive value throws; arrays and functions do not occur as columns.\<close>

definition map_column :: "typeMappings \<Rightarrow> jsval \<Rightarrow> error + jsval" where
  "map_column m column =
     (case column of
        JObj ps \<Rightarrow>
          Inr (delete_prop
                 (set_prop column ''type''
                    (mapType m (or_else (get_prop column ''dataType'') (get_prop column ''type''))))
                 ''dataType'')
      | _ \<Rightarrow> Inl TypeError)"

definition map_table :: "typeMappings \<Rightarrow> jsval \<Rightarrow> error + jsval" where
  "map_table m table =
     (if table = JUndefined \<or> table = JNull then Inl TypeError
      else case iterate (get_prop table ''columns'') of
             Inl e \<Rightarrow> Inl e
           | Inr columns \<Rightarrow>
               (case map_result (map_column m) columns of
                  Inl e \<Rightarrow> Inl e
                | Inr columns' \<Rightarrow>
                    Inr (if columns = [] then table
                         else set_prop table ''columns'' (JArr columns'))))"

text \<open>The loop \<open>if (ast.tables) for (const table of ast.tables) ...\<close>.  The columns are
  modified in place; in the model the modified objects are put back where they were.\<close>

definition apply_typeMappings :: "typeMappings \<Rightarrow> jsval \<Rightarrow> error + jsval" where
  "apply_typeMappings m ast =
     (if ast = JUndefined \<or> ast = JNull then Inl TypeError
      else let tables = get_prop ast ''tables'' in
        if truthy tables then
          (case iterate tables of
             Inl e \<Rightarrow> Inl e
           | Inr ts \<Rightarrow>
               (case map_result (map_table m) ts of
                  Inl e \<Rightarrow> Inl e
                | Inr ts' \<Rightarrow> Inr (set_prop ast ''tables'' (JArr ts'))))
        else Inr ast)"

text \<open>What \<open>parse\<close> does with the result of \<open>grammar.match\<close>.\<close>

definition parse_result :: "typeMappings \<Rightarrow> string \<Rightarrow> MatchResult \<Rightarrow> error + jsval" where
  "parse_result m dbml mr =
     (case mr of
        Failed f \<Rightarrow> Inl (SyntaxError (new_ParseError f))
      | Succeeded cst \<Rightarrow>
          if missing_action cst then Inl MissingSemanticAction
          else apply_typeMappings m (toAST dbml cst))"

text \<open>\<open>Parser.parse\<close> and \<open>Parser.validate\<close>, over the matching engine \<open>grammar\<close> (a
  function of the text and the optional start rule).\<close>

definition Parser_parse ::
  "(string \<Rightarrow> string option \<Rightarrow> MatchResult) \<Rightarrow> typeMappings \<Rightarrow> string \<Rightarrow> string option \<Rightarrow> error + jsval"
where
  "Parser_parse grammar m dbml startRule = parse_result m dbml (grammar dbml startRule)"

record validation =
  valid :: bool
  error_text :: "string option"

definition Parser_validate :: "(string \<Rightarrow> string option \<Rightarrow> MatchResult) \<Rightarrow> string \<Rightarrow> validation" where
  "Parser_validate grammar dbml =
     (case grammar dbml None of
        Succeeded cst \<Rightarrow> \<lparr> valid = True, error_text = None \<rparr>
      | Failed f \<Rightarrow> \<lparr> valid = False, error_text = Some (message f) \<rparr>)"

text \<open>\<open>parse\<close> of a text with the grammar of this file, for a text that matches within
  the depth bound \<open>n\<close>.\<close>

definition parse_dbml :: "nat \<Rightarrow> typeMappings \<Rightarrow> string \<Rightarrow> (error + jsval) res" where
  "parse_dbml n m dbml =
     (case grammar_match n dbml None of
        Match cst \<Rightarrow> Match (parse_result m dbml (Succeeded cst))
      | NoMatch \<Rightarrow> NoMatch | OutOfFuel \<Rightarrow> OutOfFuel | GrammarError \<Rightarrow> GrammarError)"

text \<open>The column object an \<open>elements\<close> entry of a table refers to.\<close>

definition deref :: "jsval \<Rightarrow> jsval \<Rightarrow> jsval" where
  "deref table v =
     (case v of JRef i \<Rightarrow> (let cs = elems (get_prop table ''columns'') in
                             if i < length cs then cs ! i else JUndefined)
      | _ \<Rightarrow> v)"

section \<open>Evaluation\<close>

text \<open>Equations for evaluating the definitions on concrete texts: the character classes
  by the bits of the character, and the rule and action tables by the name looked up.\<close>

lemma is_lower_code [code]:
  "is_lower (Char b0 b1 b2 b3 b4 b5 b6 b7) =
     (\<not> b7 \<and> b6 \<and> b5 \<and> (b0 \<or> b1 \<or> b2 \<or> b3 \<or> b4) \<and> \<not> (b4 \<and> b3 \<and> (b2 \<or> (b1 \<and> b0))))"
  by (cases b0; cases b1; cases b2; cases b3; cases b4; cases b5; cases b6; cases b7;
      simp add: is_lower_def char_code_def)

lemma is_upper_code [code]:
  "is_upper (Char b0 b1 b2 b3 b4 b5 b6 b7) =
     (\<not> b7 \<and> b6 \<and> \<not> b5 \<and> (b0 \<or> b1 \<or> b2 \<or> b3 \<or> b4) \<and> \<not> (b4 \<and> b3 \<and> (b2 \<or> (b1 \<and> b0))))"
  by (cases b0; cases b1; cases b2; cases b3; cases b4; cases b5; cases b6; cases b7;
      simp add: is_upper_def char_code_def)

lemma is_digit_code [code]:
  "is_digit (Char b0 b1 b2 b3 b4 b5 b6 b7) =
     (\<not> b7 \<and> \<not> b6 \<and> b5 \<and> b4 \<and> \<not> (b3 \<and> (b2 \<or> b1)))"
  by (cases b0; cases b1; cases b2; cases b3; cases b4; cases b5; cases b6; cases b7;
      simp add: is_digit_def char_code_def)

lemma is_hexDigit_code [code]:
  "is_hexDigit (Char b0 b1 b2 b3 b4 b5 b6 b7) =
     (is_digit (Char b0 b1 b2 b3 b4 b5 b6 b7) \<or>
      (\<not> b7 \<and> b6 \<and> \<not> b4 \<and> \<not> b3 \<and> (b0 \<or> b1 \<or> b2) \<and> \<not> (b2 \<and> b1 \<and> b0)))"
  by (cases b0; cases b1; cases b2; cases b3; cases b4; cases b5; cases b6; cases b7;
      simp add: is_hexDigit_def is_digit_def char_code_def)

lemma is_space_code [code]:
  "is_space (Char b0 b1 b2 b3 b4 b5 b6 b7) =
     (\<not> b7 \<and> \<not> b6 \<and> (\<not> b5 \<or> \<not> (b0 \<or> b1 \<or> b2 \<or> b3 \<or> b4)))"
  by (cases b0; cases b1; cases b2; cases b3; cases b4; cases b5; cases b6; cases b7;
      simp add: is_space_def char_code_def)

lemma toUpperCase_code [code]:
  "toUpperCase (Char b0 b1 b2 b3 b4 b5 b6 b7) =
     (if is_lower (Char b0 b1 b2 b3 b4 b5 b6 b7) then Char b0 b1 b2 b3 b4 False b6 b7
      else Char b0 b1 b2 b3 b4 b5 b6 b7)"
  by (simp add: toUpperCase_def)

lemma toLowerCase_code [code]:
  "toLowerCase (Char b0 b1 b2 b3 b4 b5 b6 b7) =
     (if is_upper (Char b0 b1 b2 b3 b4 b5 b6 b7) then Char b0 b1 b2 b3 b4 True b6 b7
      else Char b0 b1 b2 b3 b4 b5 b6 b7)"
  by (simp add: toLowerCase_def)

lemma rule_body_code [code]:
  "rule_body ''Schema'' = Some rule_Schema"
  "rule_body ''Element'' = Some rule_Element"
  "rule_body ''Project'' = Some rule_Project"
  "rule_body ''ProjectBody'' = Some rule_ProjectBody"
  "rule_body ''ProjectProperty'' = Some rule_ProjectProperty"
  "rule_body ''Table'' = Some rule_Table"
  "rule_body ''QualifiedIdentifier'' = Some rule_QualifiedIdentifier"
  "rule_body ''QualifiedIdentifier_qualified'' = Some rule_QualifiedIdentifier_qualified"
  "rule_body ''QualifiedIdentifier_simple'' = Some rule_QualifiedIdentifier_simple"
  "rule_body ''TableAlias'' = Some rule_TableAlias"
  "rule_body ''TableBody'' = Some rule_TableBody"
  "rule_body ''TableElement'' = Some rule_TableElement"
  "rule_body ''TablePartial'' = Some rule_TablePartial"
  "rule_body ''TablePartialBody'' = Some rule_TablePartialBody"
  "rule_body ''TablePartialElement'' = Some rule_TablePartialElement"
  "rule_body ''PartialReference'' = Some rule_PartialReference"
  "rule_body ''Column'' = Some rule_Column"
  "rule_body ''DataType'' = Some rule_DataType"
  "rule_body ''DataType_array'' = Some rule_DataType_array"
  "rule_body ''DataType_parameterized'' = Some rule_DataType_parameterized"
  "rule_body ''DataType_simple'' = Some rule_DataType_simple"
  "rule_body ''TypeParams'' = Some rule_TypeParams"
  "rule_body ''ColumnSettings'' = Some rule_ColumnSettings"
  "rule_body ''ColumnSetting'' = Some rule_ColumnSetting"
  "rule_body ''ColumnSetting_pk'' = Some rule_ColumnSetting_pk"
  "rule_body ''ColumnSetting_primaryKey'' = Some rule_ColumnSetting_primaryKey"
  "rule_body ''ColumnSetting_unique'' = Some rule_ColumnSetting_unique"
  "rule_body ''ColumnSetting_notNull'' = Some rule_ColumnSetting_notNull"
  "rule_body ''ColumnSetting_null'' = Some rule_ColumnSetting_null"
  "rule_body ''ColumnSetting_increment'' = Some rule_ColumnSetting_increment"
  "rule_body ''ColumnSetting_identityAlways'' = Some rule_ColumnSetting_identityAlways"
  "rule_body ''ColumnSetting_identityByDefault'' = Some rule_ColumnSetting_identityByDefault"
  "rule_body ''ColumnSetting_generatedStored'' = Some rule_ColumnSetting_generatedStored"
  "rule_body ''ColumnSetting_check'' = Some rule_ColumnSetting_check"
  "rule_body ''ColumnDefault'' = Some rule_ColumnDefault"
  "rule_body ''ColumnNote'' = Some rule_ColumnNote"
  "rule_body ''ColumnRef'' = Some rule_ColumnRef"
  "rule_body ''DefaultValue'' = Some rule_DefaultValue"
  "rule_body ''DefaultValue_expression'' = Some rule_DefaultValue_expression"
  "rule_body ''DefaultValue_literal'' = Some rule_DefaultValue_literal"
  "rule_body ''Indexes'' = Some rule_Indexes"
  "rule_body ''Index'' = Some rule_Index"
  "rule_body ''Index_composite'' = Some rule_Index_composite"
  "rule_body ''Index_single'' = Some rule_Index_single"
  "rule_body ''IndexColumn'' = Some rule_IndexColumn"
  "rule_body ''SortOrder'' = Some rule_SortOrder"
  "rule_body ''SortOrder_asc'' = Some rule_SortOrder_asc"
  "rule_body ''SortOrder_desc'' = Some rule_SortOrder_desc"
  "rule_body ''IndexSettings'' = Some rule_IndexSettings"
  "rule_body ''IndexSetting'' = Some rule_IndexSetting"
  "rule_body ''IndexSetting_pk'' = Some rule_IndexSetting_pk"
  "rule_body ''IndexSetting_unique'' = Some rule_IndexSetting_unique"
  "rule_body ''IndexType'' = Some rule_IndexType"
  "rule_body ''IndexName'' = Some rule_IndexName"
  "rule_body ''IndexWhere'' = Some rule_IndexWhere"
  "rule_body ''IndexTypeName'' = Some rule_IndexTypeName"
  "rule_body ''IndexTypeName_btree'' = Some rule_IndexTypeName_btree"
  "rule_body ''IndexTypeName_hash'' = Some rule_IndexTypeName_hash"
  "rule_body ''IndexTypeName_gin'' = Some rule_IndexTypeName_gin"
  "rule_body ''IndexTypeName_gist'' = Some rule_IndexTypeName_gist"
  "rule_body ''IndexTypeName_spgist'' = Some rule_IndexTypeName_spgist"
  "rule_body ''IndexTypeName_brin'' = Some rule_IndexTypeName_brin"
  "rule_body ''IndexTypeName_custom'' = Some rule_IndexTypeName_custom"
  "rule_body ''Constraints'' = Some rule_Constraints"
  "rule_body ''Constraint'' = Some rule_Constraint"
  "rule_body ''ConstraintName'' = Some rule_ConstraintName"
  "rule_body ''ConstraintType'' = Some rule_ConstraintType"
  "rule_body ''ConstraintType_check'' = Some rule_ConstraintType_check"
  "rule_body ''ConstraintType_unique'' = Some rule_ConstraintType_unique"
  "rule_body ''ConstraintType_primaryKey'' = Some rule_ConstraintType_primaryKey"
  "rule_body ''ConstraintType_exclude'' = Some rule_ConstraintType_exclude"
  "rule_body ''ExcludeOperator'' = Some rule_ExcludeOperator"
  "rule_body ''ConstraintSettings'' = Some rule_ConstraintSettings"
  "rule_body ''ConstraintSetting'' = Some rule_ConstraintSetting"
  "rule_body ''ConstraintSetting_deferrable'' = Some rule_ConstraintSetting_deferrable"
  "rule_body ''ConstraintSetting_notDeferrable'' = Some rule_ConstraintSetting_notDeferrable"
  "rule_body ''ConstraintSetting_initiallyDeferred'' = Some rule_ConstraintSetting_initiallyDeferred"
  "rule_body ''ConstraintSetting_initiallyImmediate'' = Some rule_ConstraintSetting_initiallyImmediate"
  "rule_body ''Ref'' = Some rule_Ref"
  "rule_body ''RefName'' = Some rule_RefName"
  "rule_body ''RefEndpoint'' = Some rule_RefEndpoint"
  "rule_body ''RefEndpoint_compositeQualified'' = Some rule_RefEndpoint_compositeQualified"
  "rule_body ''RefEndpoint_composite'' = Some rule_RefEndpoint_composite"
  "rule_body ''RefEndpoint_simpleQualified'' = Some rule_RefEndpoint_simpleQualified"
  "rule_body ''RefEndpoint_simple'' = Some rule_RefEndpoint_simple"
  "rule_body ''RefType'' = Some rule_RefType"
  "rule_body ''RefType_many'' = Some rule_RefType_many"
  "rule_body ''RefType_to'' = Some rule_RefType_to"
  "rule_body ''RefType_from'' = Some rule_RefType_from"
  "rule_body ''RefType_one'' = Some rule_RefType_one"
  "rule_body ''RefSettings'' = Some rule_RefSettings"
  "rule_body ''RefSetting'' = Some rule_RefSetting"
  "rule_body ''RefSetting_delete'' = Some rule_RefSetting_delete"
  "rule_body ''RefSetting_update'' = Some rule_RefSetting_update"
  "rule_body ''RefOnDelete'' = Some rule_RefOnDelete"
  "rule_body ''RefOnUpdate'' = Some rule_RefOnUpdate"
  "rule_body ''RefAction'' = Some rule_RefAction"
  "rule_body ''RefAction_cascade'' = Some rule_RefAction_cascade"
  "rule_body ''RefAction_restrict'' = Some rule_RefAction_restrict"
  "rule_body ''RefAction_setNull'' = Some rule_RefAction_setNull"
  "rule_body ''RefAction_setDefault'' = Some rule_RefAction_setDefault"
  "rule_body ''RefAction_noAction'' = Some rule_RefAction_noAction"
  "rule_body ''Enum'' = Some rule_Enum"
  "rule_body ''EnumValue'' = Some rule_EnumValue"
  "rule_body ''EnumValueNote'' = Some rule_EnumValueNote"
  "rule_body ''TableGroup'' = Some rule_TableGroup"
  "rule_body ''Note'' = Some rule_Note"
  "rule_body ''HeaderColor'' = Some rule_HeaderColor"
  "rule_body ''HexColor'' = Some rule_HexColor"
  "rule_body ''Value'' = Some rule_Value"
  "rule_body ''tripleString'' = Some rule_tripleString"
  "rule_body ''doubleString'' = Some rule_doubleString"
  "rule_body ''singleString'' = Some rule_singleString"
  "rule_body ''doubleStringChar'' = Some rule_doubleStringChar"
  "rule_body ''doubleStringChar_escape'' = Some rule_doubleStringChar_escape"
  "rule_body ''doubleStringChar_normal'' = Some rule_doubleStringChar_normal"
  "rule_body ''singleStringChar'' = Some rule_singleStringChar"
  "rule_body ''singleStringChar_escape'' = Some rule_singleStringChar_escape"
  "rule_body ''singleStringChar_normal'' = Some rule_singleStringChar_normal"
  "rule_body ''backtickString'' = Some rule_backtickString"
  "rule_body ''number'' = Some rule_number"
  "rule_body ''boolean'' = Some rule_boolean"
  "rule_body ''boolean_true'' = Some rule_boolean_true"
  "rule_body ''boolean_false'' = Some rule_boolean_false"
  "rule_body ''identifier'' = Some rule_identifier"
  "rule_body ''quotedIdentifier'' = Some rule_quotedIdentifier"
  "rule_body ''identifierName'' = Some rule_identifierName"
  "rule_body ''reservedWord'' = Some rule_reservedWord"
  "rule_body ''space'' = Some rule_space"
  "rule_body ''comment'' = Some rule_comment"
  "rule_body ''newline'' = Some rule_newline"
  "rule_body ''newline_lf'' = Some rule_newline_lf"
  "rule_body ''newline_cr'' = Some rule_newline_cr"
  "rule_body ''newline_crlf'' = Some rule_newline_crlf"
  "rule_body ''letter'' = Some rule_letter"
  "rule_body ''digit'' = Some rule_digit"
  "rule_body ''hexDigit'' = Some rule_hexDigit"
  "rule_body ''project'' = Some (PCaseInsensitive ''project'')"
  "rule_body ''table'' = Some (PCaseInsensitive ''table'')"
  "rule_body ''tablepartial'' = Some (PCaseInsensitive ''tablepartial'')"
  "rule_body ''ref'' = Some (PCaseInsensitive ''ref'')"
  "rule_body ''enum'' = Some (PCaseInsensitive ''enum'')"
  "rule_body ''tablegroup'' = Some (PCaseInsensitive ''tablegroup'')"
  "rule_body ''indexes'' = Some (PCaseInsensitive ''indexes'')"
  "rule_body ''note'' = Some (PCaseInsensitive ''note'')"
  "rule_body ''headercolor'' = Some (PCaseInsensitive ''headercolor'')"
  "rule_body ''as'' = Some (PCaseInsensitive ''as'')"
  "rule_body ''type'' = Some (PCaseInsensitive ''type'')"
  "rule_body ''name'' = Some (PCaseInsensitive ''name'')"
  "rule_body ''where'' = Some (PCaseInsensitive ''where'')"
  "rule_body ''default'' = Some (PCaseInsensitive ''default'')"
  "rule_body ''not'' = Some (PCaseInsensitive ''not'')"
  "rule_body ''null'' = Some (PCaseInsensitive ''null'')"
  "rule_body ''primary'' = Some (PCaseInsensitive ''primary'')"
  "rule_body ''key'' = Some (PCaseInsensitive ''key'')"
  "rule_body ''delete'' = Some (PCaseInsensitive ''delete'')"
  "rule_body ''update'' = Some (PCaseInsensitive ''update'')"
  "rule_body ''set'' = Some (PCaseInsensitive ''set'')"
  "rule_body ''no'' = Some (PCaseInsensitive ''no'')"
  "rule_body ''action'' = Some (PCaseInsensitive ''action'')"
  "rule_body ''true'' = Some (PCaseInsensitive ''true'')"
  "rule_body ''false'' = Some (PCaseInsensitive ''false'')"
  "rule_body ''pk'' = Some (PCaseInsensitive ''pk'')"
  "rule_body ''unique'' = Some (PCaseInsensitive ''unique'')"
  "rule_body ''increment'' = Some (PCaseInsensitive ''increment'')"
  "rule_body ''asc'' = Some (PCaseInsensitive ''asc'')"
  "rule_body ''desc'' = Some (PCaseInsensitive ''desc'')"
  "rule_body ''btree'' = Some (PCaseInsensitive ''btree'')"
  "rule_body ''hash'' = Some (PCaseInsensitive ''hash'')"
  "rule_body ''gin'' = Some (PCaseInsensitive ''gin'')"
  "rule_body ''gist'' = Some (PCaseInsensitive ''gist'')"
  "rule_body ''spgist'' = Some (PCaseInsensitive ''spgist'')"
  "rule_body ''brin'' = Some (PCaseInsensitive ''brin'')"
  "rule_body ''cascade'' = Some (PCaseInsensitive ''cascade'')"
  "rule_body ''restrict'' = Some (PCaseInsensitive ''restrict'')"
  "rule_body ''generated'' = Some (PCaseInsensitive ''generated'')"
  "rule_body ''always'' = Some (PCaseInsensitive ''always'')"
  "rule_body ''by'' = Some (PCaseInsensitive ''by'')"
  "rule_body ''identity'' = Some (PCaseInsensitive ''identity'')"
  "rule_body ''stored'' = Some (PCaseInsensitive ''stored'')"
  "rule_body ''check'' = Some (PCaseInsensitive ''check'')"
  "rule_body ''constraints'' = Some (PCaseInsensitive ''constraints'')"
  "rule_body ''constraint'' = Some (PCaseInsensitive ''constraint'')"
  "rule_body ''exclude'' = Some (PCaseInsensitive ''exclude'')"
  "rule_body ''using'' = Some (PCaseInsensitive ''using'')"
  "rule_body ''with'' = Some (PCaseInsensitive ''with'')"
  "rule_body ''deferrable'' = Some (PCaseInsensitive ''deferrable'')"
  "rule_body ''initially'' = Some (PCaseInsensitive ''initially'')"
  "rule_body ''deferred'' = Some (PCaseInsensitive ''deferred'')"
  "rule_body ''immediate'' = Some (PCaseInsensitive ''immediate'')"
  by (simp_all only: rule_body_def dbml_rules_def keyword_rules_def list.map append.simps
      map_of_Cons_code list.inject list.distinct char.inject simp_thms if_True if_False
      fst_conv snd_conv prod.inject)

lemma semantic_action_code [code]:
  "semantic_action ''Schema'' = Some toAST_Schema"
  "semantic_action ''Project'' = Some toAST_Project"
  "semantic_action ''ProjectBody'' = Some toAST_ProjectBody"
  "semantic_action ''ProjectProperty'' = Some toAST_ProjectProperty"
  "semantic_action ''Table'' = Some toAST_Table"
  "semantic_action ''QualifiedIdentifier_qualified'' = Some toAST_QualifiedIdentifier_qualified"
  "semantic_action ''QualifiedIdentifier_simple'' = Some toAST_QualifiedIdentifier_simple"
  "semantic_action ''TableAlias'' = Some toAST_TableAlias"
  "semantic_action ''TableBody'' = Some toAST_TableBody"
  "semantic_action ''TablePartial'' = Some toAST_TablePartial"
  "semantic_action ''TablePartialBody'' = Some toAST_TablePartialBody"
  "semantic_action ''PartialReference'' = Some toAST_PartialReference"
  "semantic_action ''Column'' = Some toAST_Column"
  "semantic_action ''DataType_array'' = Some toAST_DataType_array"
  "semantic_action ''DataType_parameterized'' = Some toAST_DataType_parameterized"
  "semantic_action ''DataType_simple'' = Some toAST_DataType_simple"
  "semantic_action ''ColumnSettings'' = Some toAST_ColumnSettings"
  "semantic_action ''ColumnSetting_pk'' = Some toAST_ColumnSetting_pk"
  "semantic_action ''ColumnSetting_primaryKey'' = Some toAST_ColumnSetting_primaryKey"
  "semantic_action ''ColumnSetting_unique'' = Some toAST_ColumnSetting_unique"
  "semantic_action ''ColumnSetting_notNull'' = Some toAST_ColumnSetting_notNull"
  "semantic_action ''ColumnSetting_null'' = Some toAST_ColumnSetting_null"
  "semantic_action ''ColumnSetting_increment'' = Some toAST_ColumnSetting_increment"
  "semantic_action ''ColumnSetting_identityAlways'' = Some toAST_ColumnSetting_identityAlways"
  "semantic_action ''ColumnSetting_identityByDefault'' = Some toAST_ColumnSetting_identityByDefault"
  "semantic_action ''ColumnSetting_generatedStored'' = Some toAST_ColumnSetting_generatedStored"
  "semantic_action ''ColumnSetting_check'' = Some toAST_ColumnSetting_check"
  "semantic_action ''ColumnDefault'' = Some toAST_ColumnDefault"
  "semantic_action ''ColumnNote'' = Some toAST_ColumnNote"
  "semantic_action ''ColumnRef'' = Some toAST_ColumnRef"
  "semantic_action ''DefaultValue_expression'' = Some toAST_DefaultValue_expression"
  "semantic_action ''DefaultValue_literal'' = Some toAST_DefaultValue_literal"
  "semantic_action ''Indexes'' = Some toAST_Indexes"
  "semantic_action ''Index_composite'' = Some toAST_Index_composite"
  "semantic_action ''Index_single'' = Some toAST_Index_single"
  "semantic_action ''IndexColumn'' = Some toAST_IndexColumn"
  "semantic_action ''SortOrder_asc'' = Some toAST_SortOrder_asc"
  "semantic_action ''SortOrder_desc'' = Some toAST_SortOrder_desc"
  "semantic_action ''IndexSettings'' = Some toAST_IndexSettings"
  "semantic_action ''IndexType'' = Some toAST_IndexType"
  "semantic_action ''IndexName'' = Some toAST_IndexName"
  "semantic_action ''IndexWhere'' = Some toAST_IndexWhere"
  "semantic_action ''IndexSetting_pk'' = Some toAST_IndexSetting_pk"
  "semantic_action ''IndexSetting_unique'' = Some toAST_IndexSetting_unique"
  "semantic_action ''IndexTypeName_btree'' = Some toAST_IndexTypeName_btree"
  "semantic_action ''IndexTypeName_hash'' = Some toAST_IndexTypeName_hash"
  "semantic_action ''IndexTypeName_gin'' = Some toAST_IndexTypeName_gin"
  "semantic_action ''IndexTypeName_gist'' = Some toAST_IndexTypeName_gist"
  "semantic_action ''IndexTypeName_spgist'' = Some toAST_IndexTypeName_spgist"
  "semantic_action ''IndexTypeName_brin'' = Some toAST_IndexTypeName_brin"
  "semantic_action ''IndexTypeName_custom'' = Some toAST_IndexTypeName_custom"
  "semantic_action ''Constraints'' = Some toAST_Constraints"
  "semantic_action ''Constraint'' = Some toAST_Constraint"
  "semantic_action ''ConstraintName'' = Some toAST_ConstraintName"
  "semantic_action ''ConstraintType_check'' = Some toAST_ConstraintType_check"
  "semantic_action ''ConstraintType_unique'' = Some toAST_ConstraintType_unique"
  "semantic_action ''ConstraintType_primaryKey'' = Some toAST_ConstraintType_primaryKey"
  "semantic_action ''ConstraintType_exclude'' = Some toAST_ConstraintType_exclude"
  "semantic_action ''ExcludeOperator'' = Some toAST_ExcludeOperator"
  "semantic_action ''ConstraintSettings'' = Some toAST_ConstraintSettings"
  "semantic_action ''ConstraintSetting_deferrable'' = Some toAST_ConstraintSetting_deferrable"
  "semantic_action ''ConstraintSetting_notDeferrable'' = Some toAST_ConstraintSetting_notDeferrable"
  "semantic_action ''ConstraintSetting_initiallyDeferred'' = Some toAST_ConstraintSetting_initiallyDeferred"
  "semantic_action ''ConstraintSetting_initiallyImmediate'' = Some toAST_ConstraintSetting_initiallyImmediate"
  "semantic_action ''Ref'' = Some toAST_Ref"
  "semantic_action ''RefEndpoint_compositeQualified'' = Some toAST_RefEndpoint_compositeQualified"
  "semantic_action ''RefEndpoint_composite'' = Some toAST_RefEndpoint_composite"
  "semantic_action ''RefEndpoint_simpleQualified'' = Some toAST_RefEndpoint_simpleQualified"
  "semantic_action ''RefEndpoint_simple'' = Some toAST_RefEndpoint_simple"
  "semantic_action ''RefType_many'' = Some toAST_RefType_many"
  "semantic_action ''RefType_to'' = Some toAST_RefType_to"
  "semantic_action ''RefType_from'' = Some toAST_RefType_from"
  "semantic_action ''RefType_one'' = Some toAST_RefType_one"
  "semantic_action ''RefSettings'' = Some toAST_RefSettings"
  "semantic_action ''RefSetting_delete'' = Some toAST_RefSetting_delete"
  "semantic_action ''RefSetting_update'' = Some toAST_RefSetting_update"
  "semantic_action ''RefOnDelete'' = Some toAST_RefOnDelete"
  "semantic_action ''RefOnUpdate'' = Some toAST_RefOnUpdate"
  "semantic_action ''RefAction_cascade'' = Some toAST_RefAction_cascade"
  "semantic_action ''RefAction_restrict'' = Some toAST_RefAction_restrict"
  "semantic_action ''RefAction_setNull'' = Some toAST_RefAction_setNull"
  "semantic_action ''RefAction_setDefault'' = Some toAST_RefAction_setDefault"
  "semantic_action ''RefAction_noAction'' = Some toAST_RefAction_noAction"
  "semantic_action ''Enum'' = Some toAST_Enum"
  "semantic_action ''EnumValue'' = Some toAST_EnumValue"
  "semantic_action ''EnumValueNote'' = Some toAST_EnumValueNote"
  "semantic_action ''TableGroup'' = Some toAST_TableGroup"
  "semantic_action ''Note'' = Some toAST_Note"
  "semantic_action ''HeaderColor'' = Some toAST_HeaderColor"
  "semantic_action ''HexColor'' = Some toAST_HexColor"
  "semantic_action ''tripleString'' = Some toAST_tripleString"
  "semantic_action ''doubleString'' = Some toAST_doubleString"
  "semantic_action ''doubleStringChar_escape'' = Some toAST_doubleStringChar_escape"
  "semantic_action ''doubleStringChar_normal'' = Some toAST_doubleStringChar_normal"
  "semantic_action ''singleString'' = Some toAST_singleString"
  "semantic_action ''singleStringChar_escape'' = Some toAST_singleStringChar_escape"
  "semantic_action ''singleStringChar_normal'' = Some toAST_singleStringChar_normal"
  "semantic_action ''backtickString'' = Some toAST_backtickString"
  "semantic_action ''number'' = Some toAST_number"
  "semantic_action ''boolean_true'' = Some toAST_boolean_true"
  "semantic_action ''boolean_false'' = Some toAST_boolean_false"
  "semantic_action ''identifier'' = Some toAST_identifier"
  "semantic_action ''quotedIdentifier'' = Some toAST_quotedIdentifier"
  "semantic_action ''identifierName'' = Some toAST_identifierName"
  "semantic_action ''newline_lf'' = Some toAST_newline_lf"
  "semantic_action ''newline_cr'' = Some toAST_newline_cr"
  "semantic_action ''newline_crlf'' = Some toAST_newline_crlf"
  "semantic_action ''Element'' = None"
  "semantic_action ''QualifiedIdentifier'' = None"
  "semantic_action ''TableElement'' = None"
  "semantic_action ''TablePartialElement'' = None"
  "semantic_action ''DataType'' = None"
  "semantic_action ''TypeParams'' = None"
  "semantic_action ''ColumnSetting'' = None"
  "semantic_action ''DefaultValue'' = None"
  "semantic_action ''Index'' = None"
  "semantic_action ''SortOrder'' = None"
  "semantic_action ''IndexSetting'' = None"
  "semantic_action ''IndexTypeName'' = None"
  "semantic_action ''ConstraintType'' = None"
  "semantic_action ''ConstraintSetting'' = None"
  "semantic_action ''RefName'' = None"
  "semantic_action ''RefEndpoint'' = None"
  "semantic_action ''RefType'' = None"
  "semantic_action ''RefSetting'' = None"
  "semantic_action ''RefAction'' = None"
  "semantic_action ''Value'' = None"
  "semantic_action ''doubleStringChar'' = None"
  "semantic_action ''singleStringChar'' = None"
  "semantic_action ''boolean'' = None"
  "semantic_action ''reservedWord'' = None"
  "semantic_action ''space'' = None"
  "semantic_action ''comment'' = None"
  "semantic_action ''newline'' = None"
  "semantic_action ''letter'' = None"
  "semantic_action ''digit'' = None"
  "semantic_action ''hexDigit'' = None"
  "semantic_action ''project'' = None"
  "semantic_action ''table'' = None"
  "semantic_action ''tablepartial'' = None"
  "semantic_action ''ref'' = None"
  "semantic_action ''enum'' = None"
  "semantic_action ''tablegroup'' = None"
  "semantic_action ''indexes'' = None"
  "semantic_action ''note'' = None"
  "semantic_action ''headercolor'' = None"
  "semantic_action ''as'' = None"
  "semantic_action ''type'' = None"
  "semantic_action ''name'' = None"
  "semantic_action ''where'' = None"
  "semantic_action ''default'' = None"
  "semantic_action ''not'' = None"
  "semantic_action ''null'' = None"
  "semantic_action ''primary'' = None"
  "semantic_action ''key'' = None"
  "semantic_action ''delete'' = None"
  "semantic_action ''update'' = None"
  "semantic_action ''set'' = None"
  "semantic_action ''no'' = None"
  "semantic_action ''action'' = None"
  "semantic_action ''true'' = None"
  "semantic_action ''false'' = None"
  "semantic_action ''pk'' = None"
  "semantic_action ''unique'' = None"
  "semantic_action ''increment'' = None"
  "semantic_action ''asc'' = None"
  "semantic_action ''desc'' = None"
  "semantic_action ''btree'' = None"
  "semantic_action ''hash'' = None"
  "semantic_action ''gin'' = None"
  "semantic_action ''gist'' = None"
  "semantic_action ''spgist'' = None"
  "semantic_action ''brin'' = None"
  "semantic_action ''cascade'' = None"
  "semantic_action ''restrict'' = None"
  "semantic_action ''generated'' = None"
  "semantic_action ''always'' = None"
  "semantic_action ''by'' = None"
  "semantic_action ''identity'' = None"
  "semantic_action ''stored'' = None"
  "semantic_action ''check'' = None"
  "semantic_action ''constraints'' = None"
  "semantic_action ''constraint'' = None"
  "semantic_action ''exclude'' = None"
  "semantic_action ''using'' = None"
  "semantic_action ''with'' = None"
  "semantic_action ''deferrable'' = None"
  "semantic_action ''initially'' = None"
  "semantic_action ''deferred'' = None"
  "semantic_action ''immediate'' = None"
  "semantic_action ''ListOf'' = None"
  by (simp_all only: semantic_action_def semantic_actions_def map_of_Cons_code map_of.simps(1)
      list.inject list.distinct char.inject simp_thms if_True if_False fst_conv snd_conv
      prod.inject)

section \<open>Properties of objects\<close>

lemma get_prop_JObj: "get_prop (JObj ps) k = (case map_of ps k of Some x \<Rightarrow> x | None \<Rightarrow> JUndefined)"
  by (simp add: get_prop_def)

lemma has_prop_JObj: "has_prop (JObj ps) k = (map_of ps k \<noteq> None)"
  by (simp add: has_prop_def)

lemma set_prop_JObj: "set_prop (JObj ps) k x = JObj (AList.update k x ps)"
  by (simp add: set_prop_def)

lemma get_prop_set_prop:
  "get_prop (set_prop (JObj ps) k x) k' = (if k' = k then x else get_prop (JObj ps) k')"
  by (simp add: get_prop_def set_prop_def update_conv')

lemma has_prop_set_prop:
  "has_prop (set_prop (JObj ps) k x) k' = (k' = k \<or> has_prop (JObj ps) k')"
  by (simp add: has_prop_def set_prop_def update_conv')

lemma set_prop_is_JObj: "\<exists>qs. set_prop (JObj ps) k x = JObj qs"
  by (simp add: set_prop_def)

lemma push_prop_JObj:
  "get_prop (JObj ps) k = JArr xs \<Longrightarrow> push_prop (JObj ps) k x = set_prop (JObj ps) k (JArr (xs @ [x]))"
  by (simp add: push_prop_def)

lemma own_props_JObj: "own_props (JObj ps) = ps"
  by (simp add: own_props_def)

lemma assign_Nil: "assign v (JObj []) = v"
  by (simp add: assign_def own_props_def)

lemma assign_is_JObj: "\<exists>qs. assign (JObj ps) src = JObj qs"
proof -
  have "\<exists>qs. foldl (\<lambda>acc (k, x). set_prop acc k x) (JObj ps) xs = JObj qs" for xs
  proof (induction xs arbitrary: ps)
    case Nil
    then show ?case by simp
  next
    case (Cons a xs)
    obtain k x where a: "a = (k, x)" by (cases a)
    show ?case using Cons.IH [of "AList.update k x ps"] by (simp add: a set_prop_def)
  qed
  then show ?thesis by (simp add: assign_def)
qed

text \<open>Assigning a source onto an object: a key of the source takes the source's value,
  every other key keeps the target's.\<close>

lemma foldl_set_prop_get:
  "get_prop (foldl (\<lambda>acc (k, x). set_prop acc k x) (JObj ps) xs) k' =
     (case map_of (rev xs) k' of Some x \<Rightarrow> x | None \<Rightarrow> get_prop (JObj ps) k')"
proof (induction xs arbitrary: ps)
  case Nil
  then show ?case by simp
next
  case (Cons a xs)
  obtain k x where a: "a = (k, x)" by (cases a)
  have "get_prop (foldl (\<lambda>acc (k, x). set_prop acc k x) (JObj (AList.update k x ps)) xs) k' =
        (case map_of (rev xs) k' of Some x \<Rightarrow> x | None \<Rightarrow> get_prop (JObj (AList.update k x ps)) k')"
    by (rule Cons.IH)
  then show ?case
    by (auto simp: a set_prop_def get_prop_def update_conv' map_add_def split: option.splits)
qed

lemma foldl_set_prop_has:
  "has_prop (foldl (\<lambda>acc (k, x). set_prop acc k x) (JObj ps) xs) k' =
     (k' \<in> fst ` set xs \<or> has_prop (JObj ps) k')"
proof (induction xs arbitrary: ps)
  case Nil
  then show ?case by simp
next
  case (Cons a xs)
  obtain k x where a: "a = (k, x)" by (cases a)
  have "has_prop (foldl (\<lambda>acc (k, x). set_prop acc k x) (JObj (AList.update k x ps)) xs) k' =
        (k' \<in> fst ` set xs \<or> has_prop (JObj (AList.update k x ps)) k')"
    by (rule Cons.IH)
  then show ?case
    by (auto simp: a set_prop_def has_prop_def update_conv')
qed

lemma has_prop_own_props: "has_prop v k = (k \<in> fst ` set (own_props v))"
  by (cases v) (auto simp: has_prop_def own_props_def map_of_eq_None_iff)

lemma get_prop_assign:
  assumes "distinct (map fst (own_props src))"
  shows "get_prop (assign (JObj ps) src) k =
     (if has_prop src k then get_prop src k else get_prop (JObj ps) k)"
proof (cases src)
  case (JObj qs)
  have d: "distinct (map fst qs)" using assms by (simp add: JObj own_props_def)
  have "distinct (map fst (rev qs))"
    using d by (simp add: rev_map [symmetric] del: rev_map)
  then have "map_of (rev qs) = map_of qs"
    using d by (simp add: map_of_inject_set)
  then have "map_of (rev qs) k = map_of qs k" by simp
  moreover have "get_prop (assign (JObj ps) src) k =
      (case map_of (rev qs) k of Some x \<Rightarrow> x | None \<Rightarrow> get_prop (JObj ps) k)"
    by (simp add: assign_def JObj own_props_def foldl_set_prop_get)
  ultimately show ?thesis
    by (auto simp: JObj has_prop_def get_prop_def split: option.splits)
qed (simp_all add: assign_def own_props_def has_prop_def)

lemma has_prop_assign:
  "has_prop (assign (JObj ps) src) k = (has_prop src k \<or> has_prop (JObj ps) k)"
  by (simp add: assign_def foldl_set_prop_has has_prop_own_props [of src])

section \<open>Settings lists\<close>

lemma merge_settings_snoc: "merge_settings (ss @ [s]) = assign (merge_settings ss) s"
  by (simp add: merge_settings_def)

lemma merge_settings_is_JObj: "\<exists>qs. merge_settings ss = JObj qs"
proof (induction ss rule: rev_induct)
  case Nil
  then show ?case by (simp add: merge_settings_def)
next
  case (snoc s ss)
  then obtain qs where "merge_settings ss = JObj qs" by blast
  then show ?case using assign_is_JObj [of qs s] by (simp add: merge_settings_snoc)
qed

lemma merge_settings_has:
  "has_prop (merge_settings ss) k = list_ex (\<lambda>s. has_prop s k) ss"
proof (induction ss rule: rev_induct)
  case Nil
  then show ?case by (simp add: merge_settings_def has_prop_def)
next
  case (snoc s ss)
  obtain qs where q: "merge_settings ss = JObj qs" using merge_settings_is_JObj by blast
  show ?case using snoc has_prop_assign [of qs s k] by (auto simp: merge_settings_snoc q)
qed

lemma merge_settings_get:
  assumes "list_all wf_object ss"
  shows "get_prop (merge_settings ss) k =
     (let xs = filter (\<lambda>s. has_prop s k) ss in
      if xs = [] then JUndefined else get_prop (last xs) k)"
  using assms
proof (induction ss rule: rev_induct)
  case Nil
  then show ?case by (simp add: merge_settings_def get_prop_def)
next
  case (snoc s ss)
  obtain qs where q: "merge_settings ss = JObj qs" using merge_settings_is_JObj by blast
  have w: "distinct (map fst (own_props s))" using snoc.prems by (simp add: wf_object_def)
  have ih: "get_prop (JObj qs) k =
     (let xs = filter (\<lambda>s. has_prop s k) ss in
      if xs = [] then JUndefined else get_prop (last xs) k)"
    using snoc by (simp add: q)
  show ?case
    using get_prop_assign [OF w, of qs k] ih by (simp add: merge_settings_snoc q Let_def)
qed

lemma wf_object_JObj: "wf_object (JObj ps) = distinct (map fst ps)"
  by (simp add: wf_object_def own_props_def)

lemma wf_set_prop: "wf_object v \<Longrightarrow> wf_object (set_prop v k x)"
  by (cases v) (simp_all add: wf_object_def own_props_def set_prop_def distinct_update)

lemma wf_delete_prop: "wf_object v \<Longrightarrow> wf_object (delete_prop v k)"
  by (cases v) (simp_all add: wf_object_def own_props_def delete_prop_def distinct_delete)

lemma wf_foldl_set_prop:
  "wf_object v \<Longrightarrow> wf_object (foldl (\<lambda>acc (k, x). set_prop acc k x) v xs)"
proof (induction xs arbitrary: v)
  case Nil
  then show ?case by simp
next
  case (Cons a xs)
  obtain k x where a: "a = (k, x)" by (cases a)
  show ?case using Cons.IH [OF wf_set_prop [OF Cons.prems, of k x]] by (simp add: a)
qed

lemma wf_assign: "wf_object v \<Longrightarrow> wf_object (assign v src)"
  by (simp add: assign_def wf_foldl_set_prop)

lemma wf_merge_settings: "wf_object (merge_settings ss)"
proof (induction ss rule: rev_induct)
  case Nil
  then show ?case by (simp add: merge_settings_def wf_object_def own_props_def)
next
  case (snoc s ss)
  then show ?case by (simp add: merge_settings_snoc wf_assign)
qed

lemma get_prop_delete_prop:
  "get_prop (delete_prop v k) k' = (if k' = k then JUndefined else get_prop v k')"
  by (cases v) (simp_all add: get_prop_def delete_prop_def delete_conv')

lemma has_prop_delete_prop:
  "has_prop (delete_prop v k) k' = (k' \<noteq> k \<and> has_prop v k')"
  by (cases v) (auto simp: has_prop_def delete_prop_def delete_conv')

lemma get_prop_non_object: "\<not> has_prop v k \<Longrightarrow> get_prop v k = JUndefined"
  by (cases v) (auto simp: has_prop_def get_prop_def)

text \<open>The column object keeps every property of the body element other than \<open>name\<close>,
  \<open>type\<close> and \<open>dataType\<close>.\<close>

lemma Column_of_get:
  assumes "wf_object element" "k \<noteq> ''name''" "k \<noteq> ''type''" "k \<noteq> ''dataType''"
  shows "get_prop (Column_of element) k = get_prop element k"
    and "has_prop (Column_of element) k = has_prop element k"
proof -
  let ?src = "delete_prop (delete_prop element ''type'') ''dataType''"
  have w: "distinct (map fst (own_props ?src))"
    using assms(1) wf_delete_prop by (simp add: wf_object_def [symmetric])
  show "get_prop (Column_of element) k = get_prop element k"
    using assms(2-4) get_prop_assign [OF w, of _ k]
    by (auto simp: Column_of_def get_prop_delete_prop has_prop_delete_prop get_prop_JObj
        get_prop_non_object)
  show "has_prop (Column_of element) k = has_prop element k"
    using assms(2-4)
    by (auto simp: Column_of_def has_prop_assign has_prop_delete_prop has_prop_JObj)
qed

section \<open>Column settings (claim C3)\<close>

lemma toAST_ColumnSettings_node:
  "toAST t (NonterminalNode ''ColumnSettings''
      [a, NonterminalNode ''ListOf'' [IterationNode ks s1 e1] s2 e2, c] s e) =
   merge_settings (map (toAST t) ks)"
  by (simp add: semantic_action_code toAST_ColumnSettings_def elems_def)

lemma toAST_Column_node:
  "toAST t (NonterminalNode ''Column'' [n, d, IterationNode sn s3 e3] s e) =
     (let result = JObj [(''type'', JStr ''column''), (''name'', toAST t n), (''dataType'', toAST t d)]
      in if sn = [] then result else assign result (toAST t (hd sn)))"
  by (cases sn) (simp_all add: semantic_action_code toAST_Column_def first_of_def Let_def)

lemma Column_settings_flag:
  assumes "k \<noteq> ''name''" "k \<noteq> ''type''" "k \<noteq> ''dataType''"
  shows "get_prop (Column_of (assign (JObj [(''type'', JStr ''column''), (''name'', n), (''dataType'', d)])
                      (merge_settings ss))) k = get_prop (merge_settings ss) k"
    and "has_prop (Column_of (assign (JObj [(''type'', JStr ''column''), (''name'', n), (''dataType'', d)])
                      (merge_settings ss))) k = has_prop (merge_settings ss) k"
proof -
  let ?el = "assign (JObj [(''type'', JStr ''column''), (''name'', n), (''dataType'', d)]) (merge_settings ss)"
  have w: "wf_object ?el" by (rule wf_assign) (simp add: wf_object_JObj)
  have d: "distinct (map fst (own_props (merge_settings ss)))"
    using wf_merge_settings by (simp add: wf_object_def)
  have g: "get_prop ?el k = get_prop (merge_settings ss) k"
    using assms get_prop_assign [OF d, of _ k]
    by (auto simp: get_prop_JObj get_prop_non_object)
  have h: "has_prop ?el k = has_prop (merge_settings ss) k"
    using assms by (auto simp: has_prop_assign has_prop_JObj)
  show "get_prop (Column_of ?el) k = get_prop (merge_settings ss) k"
    using Column_of_get(1) [OF w assms] g by simp
  show "has_prop (Column_of ?el) k = has_prop (merge_settings ss) k"
    using Column_of_get(2) [OF w assms] h by simp
qed

lemma Column_no_settings_flag:
  "k \<noteq> ''name'' \<Longrightarrow> k \<noteq> ''type'' \<Longrightarrow>
   \<not> has_prop (Column_of (JObj [(''type'', JStr ''column''), (''name'', n), (''dataType'', d)])) k"
  by (simp add: Column_of_def has_prop_assign has_prop_delete_prop has_prop_JObj)

text \<open>
  Claim C3.  The value of a column's settings list \<open>[s1, ..., sn]\<close> is the left-to-right
  fold of \<open>Object.assign\<close> over the settings in the order written.  In it, a key has the
  value given by the last setting that defines it, and is absent when no setting
  defines it.  \<open>not null\<close> is the setting \<open>{notNull: true}\<close> and \<open>null\<close> is
  \<open>{notNull: false}\<close>.  The column object built from a column with this settings list
  has the same \<open>notNull\<close> property as the settings value, and the column object of a
  column without a settings list has no \<open>notNull\<close> property.  (Each setting is an object
  with distinct property names.)
\<close>

theorem column_settings_last_wins:
  assumes "list_all wf_object (map (toAST t) ks)"
  shows
    "let settings = map (toAST t) ks;
         node = NonterminalNode ''ColumnSettings''
                  [a, NonterminalNode ''ListOf'' [IterationNode ks s1 e1] s2 e2, c] s e;
         result = toAST t node;
         column_with = Column_of (toAST t (NonterminalNode ''Column'' [n, d, IterationNode [node] s3 e3] s4 e4));
         column_without = Column_of (toAST t (NonterminalNode ''Column'' [n, d, IterationNode [] s3 e3] s4 e4))
     in result = foldl assign (JObj []) settings
      \<and> get_prop result k =
          (let defining = filter (\<lambda>v. has_prop v k) settings in
           if defining = [] then JUndefined else get_prop (last defining) k)
      \<and> has_prop result k = list_ex (\<lambda>v. has_prop v k) settings
      \<and> toAST t (NonterminalNode ''ColumnSetting_notNull'' kids1 s5 e5) = JObj [(''notNull'', JBool True)]
      \<and> toAST t (NonterminalNode ''ColumnSetting_null'' kids2 s6 e6) = JObj [(''notNull'', JBool False)]
      \<and> get_prop column_with ''notNull'' = get_prop result ''notNull''
      \<and> has_prop column_with ''notNull'' = has_prop result ''notNull''
      \<and> has_prop column_without ''notNull'' = False"
proof -
  let ?ss = "map (toAST t) ks"
  have 1: "merge_settings ?ss = foldl assign (JObj []) ?ss" by (simp add: merge_settings_def)
  have 4: "toAST t (NonterminalNode ''ColumnSetting_notNull'' kids1 s5 e5) = JObj [(''notNull'', JBool True)]"
    by (simp add: semantic_action_code toAST_ColumnSetting_notNull_def)
  have 5: "toAST t (NonterminalNode ''ColumnSetting_null'' kids2 s6 e6) = JObj [(''notNull'', JBool False)]"
    by (simp add: semantic_action_code toAST_ColumnSetting_null_def)
  have 8: "has_prop (Column_of (JObj [(''type'', JStr ''column''), (''name'', toAST t n),
             (''dataType'', toAST t d)])) ''notNull'' = False"
    using Column_no_settings_flag [of "''notNull''"] by simp
  show ?thesis
    using merge_settings_get [OF assms, of k] merge_settings_has [of ?ss k]
      Column_settings_flag [of "''notNull''" "toAST t n" "toAST t d" ?ss] 1 4 5 8
    by (simp add: Let_def toAST_ColumnSettings_node toAST_Column_node del: toAST.simps)
qed

theorem column_settings_last_wins_witness:
  "list_all wf_object
     (map (toAST []) [NonterminalNode ''ColumnSetting_null'' [] 0 0,
                      NonterminalNode ''ColumnSetting_notNull'' [] 0 0])
   \<and> get_prop (toAST [] (NonterminalNode ''ColumnSettings''
         [TerminalNode 0 0,
          NonterminalNode ''ListOf''
            [IterationNode [NonterminalNode ''ColumnSetting_null'' [] 0 0,
                            NonterminalNode ''ColumnSetting_notNull'' [] 0 0] 0 0] 0 0,
          TerminalNode 0 0] 0 0)) ''notNull'' = JBool True"
proof -
  let ?ks = "[NonterminalNode ''ColumnSetting_null'' [] 0 0,
              NonterminalNode ''ColumnSetting_notNull'' [] 0 0]"
  have h: "list_all wf_object (map (toAST []) ?ks)"
    by code_simp
  have e: "(if filter (\<lambda>v. has_prop v ''notNull'') (map (toAST []) ?ks) = [] then JUndefined
            else get_prop (last (filter (\<lambda>v. has_prop v ''notNull'') (map (toAST []) ?ks))) ''notNull'')
           = JBool True"
    by code_simp
  note th = column_settings_last_wins [of "[]" ?ks "TerminalNode 0 0" 0 0 0 0 "TerminalNode 0 0" 0 0
      _ _ _ _ _ _ "''notNull''", OF h, unfolded Let_def, THEN conjunct2, THEN conjunct1]
  show ?thesis
    using h th e by (simp only: simp_thms)
qed

text \<open>The examples of the claim, from the text of a table.\<close>

lemma settings_null_then_not_null:
  "parse_dbml 200 default_typeMappings ''Table t { id int [null, not null] }'' =
   Match (Inr (JObj [(''name'', JStr ''database''),
     (''tables'', JArr [JObj [(''type'', JStr ''table''), (''name'', JStr ''t''),
        (''columns'', JArr [JObj [(''name'', JStr ''id''), (''type'', JStr ''int''),
                                  (''notNull'', JBool True)]]),
        (''indexes'', JArr []),
        (''elements'', JArr [JObj [(''type'', JStr ''column''), (''column'', JRef 0)]])]]),
     (''refs'', JArr []), (''enums'', JArr []), (''tableGroups'', JArr []),
     (''project'', JUndefined), (''partials'', JArr [])]))"
  by code_simp

lemma settings_not_null_then_null:
  "parse_dbml 200 default_typeMappings ''Table t { id int [not null, null] }'' =
   Match (Inr (JObj [(''name'', JStr ''database''),
     (''tables'', JArr [JObj [(''type'', JStr ''table''), (''name'', JStr ''t''),
        (''columns'', JArr [JObj [(''name'', JStr ''id''), (''type'', JStr ''int''),
                                  (''notNull'', JBool False)]]),
        (''indexes'', JArr []),
        (''elements'', JArr [JObj [(''type'', JStr ''column''), (''column'', JRef 0)]])]]),
     (''refs'', JArr []), (''enums'', JArr []), (''tableGroups'', JArr []),
     (''project'', JUndefined), (''partials'', JArr [])]))"
  by code_simp

lemma settings_unspecified:
  "parse_dbml 200 default_typeMappings ''Table t { id int }'' =
   Match (Inr (JObj [(''name'', JStr ''database''),
     (''tables'', JArr [JObj [(''type'', JStr ''table''), (''name'', JStr ''t''),
        (''columns'', JArr [JObj [(''name'', JStr ''id''), (''type'', JStr ''int'')]]),
        (''indexes'', JArr []),
        (''elements'', JArr [JObj [(''type'', JStr ''column''), (''column'', JRef 0)]])]]),
     (''refs'', JArr []), (''enums'', JArr []), (''tableGroups'', JArr []),
     (''project'', JUndefined), (''partials'', JArr [])]))"
  by code_simp

section \<open>Default values (claim C4)\<close>





text \<open>The examples of the claim, from the text of a table.\<close>

lemma default_examples:
  "parse_dbml 200 default_typeMappings
     (''Table t { a ts [default: '' @ [backtick] @ ''now()'' @ [backtick] @ ''] b text [default: ''
       @ [squote] @ ''active'' @ [squote] @ ''] c bool [default: true] d int [default: 0] }'') =
   Match (Inr (JObj [(''name'', JStr ''database''),
     (''tables'', JArr [JObj [(''type'', JStr ''table''), (''name'', JStr ''t''),
        (''columns'', JArr [
           JObj [(''name'', JStr ''a''), (''type'', JStr ''ts''),
                 (''default'', JObj [(''type'', JStr ''expression''), (''value'', JStr ''now()'')])],
           JObj [(''name'', JStr ''b''), (''type'', JStr ''text''), (''default'', JStr ''active'')],
           JObj [(''name'', JStr ''c''), (''type'', JStr ''bool''), (''default'', JBool True)],
           JObj [(''name'', JStr ''d''), (''type'', JStr ''int''), (''default'', JNum ''0'')]]),
        (''indexes'', JArr []),
        (''elements'', JArr [JObj [(''type'', JStr ''column''), (''column'', JRef 0)],
                             JObj [(''type'', JStr ''column''), (''column'', JRef 1)],
                             JObj [(''type'', JStr ''column''), (''column'', JRef 2)],
                             JObj [(''type'', JStr ''column''), (''column'', JRef 3)]])]]),
     (''refs'', JArr []), (''enums'', JArr []), (''tableGroups'', JArr []),
     (''project'', JUndefined), (''partials'', JArr [])]))"
  by code_simp

section \<open>Identifiers and reserved words (claim C7)\<close>

text \<open>The example of the claim: \<open>type\<close>, \<open>name\<close> and \<open>action\<close> are column names.\<close>

lemma keyword_named_columns:
  "parse_dbml 200 default_typeMappings ''Table t { type text name text action text }'' =
   Match (Inr (JObj [(''name'', JStr ''database''),
     (''tables'', JArr [JObj [(''type'', JStr ''table''), (''name'', JStr ''t''),
        (''columns'', JArr [JObj [(''name'', JStr ''type''), (''type'', JStr ''text'')],
                            JObj [(''name'', JStr ''name''), (''type'', JStr ''text'')],
                            JObj [(''name'', JStr ''action''), (''type'', JStr ''text'')]]),
        (''indexes'', JArr []),
        (''elements'', JArr [JObj [(''type'', JStr ''column''), (''column'', JRef 0)],
                             JObj [(''type'', JStr ''column''), (''column'', JRef 1)],
                             JObj [(''type'', JStr ''column''), (''column'', JRef 2)]])]]),
     (''refs'', JArr []), (''enums'', JArr []), (''tableGroups'', JArr []),
     (''project'', JUndefined), (''partials'', JArr [])]))"
  by code_simp

text \<open>Every keyword other than the eight reserved words is matched by \<open>identifier\<close>, and
  of the eight, six are refused.\<close>

lemma other_keywords_are_identifiers:
  "list_all (\<lambda>k. grammar_match 200 k (Some ''identifier'') \<noteq> NoMatch)
     (filter (\<lambda>k. k \<notin> set [''project'', ''table'', ''tablepartial'', ''ref'', ''enum'',
                               ''tablegroup'', ''indexes'', ''constraints'']) keyword_rules)"
  by code_simp

lemma reserved_words_refused:
  "list_all (\<lambda>k. grammar_match 200 k (Some ''identifier'') = NoMatch)
     [''project'', ''table'', ''ref'', ''enum'', ''indexes'', ''constraints'',
      ''Project'', ''TABLE'', ''Ref'', ''ENUM'', ''Indexes'', ''Constraints'']"
  by code_simp

text \<open>
  Claim C7 (what the code does instead).  \<open>reservedWord\<close> is an ordered choice followed by a
  negative lookahead.  On \<open>tablepartial\<close> the alternative \<open>table\<close>, which comes before
  \<open>tablepartial\<close>, matches the first five letters; the choice is then settled, the lookahead
  fails on \<open>p\<close>, and \<open>reservedWord\<close> fails as a whole.  So \<open>tablepartial\<close> is accepted as an
  identifier, and likewise \<open>tablegroup\<close>: \<open>Table tablepartial { id int }\<close> is a table named
  \<open>tablepartial\<close> and \<open>Table t { tablegroup int }\<close> has a column named \<open>tablegroup\<close>, whereas
  \<open>table\<close> itself is refused.
\<close>

theorem reserved_word_prefix_accepted:
  "parse_dbml 200 default_typeMappings ''Table tablepartial { id int }'' =
     Match (Inr (JObj [(''name'', JStr ''database''),
       (''tables'', JArr [JObj [(''type'', JStr ''table''), (''name'', JStr ''tablepartial''),
          (''columns'', JArr [JObj [(''name'', JStr ''id''), (''type'', JStr ''int'')]]),
          (''indexes'', JArr []),
          (''elements'', JArr [JObj [(''type'', JStr ''column''), (''column'', JRef 0)]])]]),
       (''refs'', JArr []), (''enums'', JArr []), (''tableGroups'', JArr []),
       (''project'', JUndefined), (''partials'', JArr [])]))
   \<and> parse_dbml 200 default_typeMappings ''Table t { tablegroup int }'' =
     Match (Inr (JObj [(''name'', JStr ''database''),
       (''tables'', JArr [JObj [(''type'', JStr ''table''), (''name'', JStr ''t''),
          (''columns'', JArr [JObj [(''name'', JStr ''tablegroup''), (''type'', JStr ''int'')]]),
          (''indexes'', JArr []),
          (''elements'', JArr [JObj [(''type'', JStr ''column''), (''column'', JRef 0)]])]]),
       (''refs'', JArr []), (''enums'', JArr []), (''tableGroups'', JArr []),
       (''project'', JUndefined), (''partials'', JArr [])]))
   \<and> grammar_match 200 ''table'' (Some ''identifier'') = NoMatch"
  by code_simp

section \<open>Type mapping (claim C2)\<close>

text \<open>The example of the claim: \<open>kinstant\<close> is rewritten, \<open>kinstant[]\<close>, \<open>text[]\<close> and
  \<open>varchar(255)\<close> are not.\<close>

lemma type_mapping_exact_example:
  "parse_dbml 200 (Parser_typeMappings [(''kinstant'', ''timestamp with time zone'')])
     ''Table t { a kinstant b kinstant[] c text[] d varchar(255) }'' =
   Match (Inr (JObj [(''name'', JStr ''database''),
     (''tables'', JArr [JObj [(''type'', JStr ''table''), (''name'', JStr ''t''),
        (''columns'', JArr [
           JObj [(''name'', JStr ''a''), (''type'', JStr ''timestamp with time zone'')],
           JObj [(''name'', JStr ''b''), (''type'', JStr ''kinstant[]'')],
           JObj [(''name'', JStr ''c''), (''type'', JStr ''text[]'')],
           JObj [(''name'', JStr ''d''), (''type'', JStr ''varchar(255)'')]]),
        (''indexes'', JArr []),
        (''elements'', JArr [JObj [(''type'', JStr ''column''), (''column'', JRef 0)],
                             JObj [(''type'', JStr ''column''), (''column'', JRef 1)],
                             JObj [(''type'', JStr ''column''), (''column'', JRef 2)],
                             JObj [(''type'', JStr ''column''), (''column'', JRef 3)]])]]),
     (''refs'', JArr []), (''enums'', JArr []), (''tableGroups'', JArr []),
     (''project'', JUndefined), (''partials'', JArr [])]))"
  by code_simp

text \<open>What \<open>mapType\<close> does to a type string: a key with a non-empty value is replaced by
  the value; a string that is neither a key nor the name of a property of
  \<open>Object.prototype\<close> is unchanged.\<close>

lemma mapType_key:
  "map_of m ty = Some v \<Longrightarrow> v \<noteq> [] \<Longrightarrow> mapType m (JStr ty) = JStr v"
  by (simp add: mapType_def typeMappings_get_def or_else_def truthy_def str_of_def)

lemma mapType_other:
  "map_of m ty = None \<Longrightarrow> ty \<notin> set Object_prototype \<Longrightarrow> mapType m (JStr ty) = JStr ty"
  by (simp add: mapType_def typeMappings_get_def or_else_def truthy_def str_of_def)

text \<open>
  Claim C2 (what the code does instead).  \<open>mapType\<close> is \<open>this.typeMappings[type] || type\<close>,
  a lookup in a plain object.  A type string that is not a key of the table but names a
  property every object inherits, such as \<open>constructor\<close>, finds that inherited function,
  which is truthy: the column \<open>c constructor\<close> leaves \<open>parse\<close> with a function for its
  type, not the string \<open>constructor\<close>.  And a key mapped to the empty string is not
  rewritten, the empty string being falsy: with \<open>kinstant\<close> mapped to \<open>""\<close> the column
  \<open>c kinstant\<close> keeps the type \<open>kinstant\<close>.
\<close>

theorem type_mapping_inherited_property:
  "parse_dbml 200 (Parser_typeMappings []) ''Table t { c constructor }'' =
     Match (Inr (JObj [(''name'', JStr ''database''),
       (''tables'', JArr [JObj [(''type'', JStr ''table''), (''name'', JStr ''t''),
          (''columns'', JArr [JObj [(''name'', JStr ''c''), (''type'', JFun ''constructor'')]]),
          (''indexes'', JArr []),
          (''elements'', JArr [JObj [(''type'', JStr ''column''), (''column'', JRef 0)]])]]),
       (''refs'', JArr []), (''enums'', JArr []), (''tableGroups'', JArr []),
       (''project'', JUndefined), (''partials'', JArr [])]))
   \<and> parse_dbml 200 (Parser_typeMappings [(''kinstant'', '''')]) ''Table t { c kinstant }'' =
     Match (Inr (JObj [(''name'', JStr ''database''),
       (''tables'', JArr [JObj [(''type'', JStr ''table''), (''name'', JStr ''t''),
          (''columns'', JArr [JObj [(''name'', JStr ''c''), (''type'', JStr ''kinstant'')]]),
          (''indexes'', JArr []),
          (''elements'', JArr [JObj [(''type'', JStr ''column''), (''column'', JRef 0)]])]]),
       (''refs'', JArr []), (''enums'', JArr []), (''tableGroups'', JArr []),
       (''project'', JUndefined), (''partials'', JArr [])]))"
  by code_simp

section \<open>Failures of parse and validate (claim C5)\<close>

text \<open>\<open>validate\<close> builds no document and maps no type: its result is a function of the
  engine's answer alone, valid exactly when the text matches, and otherwise it carries
  the engine's message.\<close>

lemma validate_valid:
  "valid (Parser_validate grammar dbml) = (case grammar dbml None of Succeeded c \<Rightarrow> True | Failed f \<Rightarrow> False)"
  by (simp add: Parser_validate_def split: MatchResult.split)

lemma validate_error:
  "error_text (Parser_validate grammar dbml) =
     (case grammar dbml None of Succeeded c \<Rightarrow> None | Failed f \<Rightarrow> Some (message f))"
  by (simp add: Parser_validate_def split: MatchResult.split)

text \<open>A text that does not match makes \<open>parse\<close> raise a \<open>ParseError\<close>, with the engine's
  message, the line and column, and the list of expected alternatives.\<close>

lemma parse_failure:
  "grammar dbml r = Failed f \<Longrightarrow>
   Parser_parse grammar m dbml r = Inl (SyntaxError (new_ParseError f))"
  by (simp add: Parser_parse_def parse_result_def)

text \<open>
  Claim C5 (what the code does instead).  The action of \<open>Project\<close> spreads the properties
  of the body over \<open>{type: "project", name}\<close>, so a property named \<open>type\<close> replaces the tag.
  The text \<open>Project p { type: 'table' }\<close> matches the grammar; its project object carries
  the tag \<open>table\<close>, is pushed into \<open>tables\<close> by the action of \<open>Schema\<close>, and has no \<open>columns\<close>.
  The type-mapping loop of \<open>parse\<close> then iterates over \<open>undefined\<close>: \<open>parse\<close> raises a
  \<open>TypeError\<close>, which is neither a document nor a \<open>ParseError\<close>.
\<close>

theorem parse_raises_type_error:
  "parse_dbml 200 default_typeMappings
     (''Project p { type: '' @ [squote] @ ''table'' @ [squote] @ '' }'') = Match (Inl TypeError)"
  by code_simp

section \<open>String values (claim C9)\<close>









text \<open>An example with every kind of string: a double-quoted note with the escapes
  \<open>\n\<close>, \<open>\"\<close>, \<open>\\\<close> and \<open>\q\<close>, a single-quoted default with \<open>\'\<close>, \<open>\t\<close> and \<open>\r\<close>, a
  triple-quoted note and a backtick-quoted default that both hold \<open>\n\<close>.\<close>

lemma string_examples:
  "parse_dbml 200 default_typeMappings
     (''Table t { a text [note: '' @ [dquote] @ ''x'' @ [backslash] @ ''ny'' @ [backslash, dquote]
        @ ''z'' @ [backslash, backslash] @ ''w'' @ [backslash] @ ''q'' @ [dquote]
        @ '', default: '' @ [squote] @ ''a'' @ [backslash, squote] @ ''b'' @ [backslash] @ ''tc''
        @ [backslash] @ ''r'' @ [squote] @ ''] b text [note: '' @ [squote, squote, squote] @ ''r''
        @ [backslash] @ ''n'' @ [dquote] @ ''s'' @ [squote, squote, squote]
        @ '', default: '' @ [backtick] @ ''f('' @ [backslash] @ ''n)'' @ [backtick] @ ''] }'') =
   Match (Inr (JObj [(''name'', JStr ''database''),
     (''tables'', JArr [JObj [(''type'', JStr ''table''), (''name'', JStr ''t''),
        (''columns'', JArr [
           JObj [(''name'', JStr ''a''), (''type'', JStr ''text''),
                 (''note'', JStr (''x'' @ [newline_char] @ ''y'' @ [dquote] @ ''z'' @ [backslash] @ ''wq'')),
                 (''default'', JStr (''a'' @ [squote] @ ''b'' @ [tab_char] @ ''c'' @ [cr_char]))],
           JObj [(''name'', JStr ''b''), (''type'', JStr ''text''),
                 (''note'', JStr (''r'' @ [backslash] @ ''n'' @ [dquote] @ ''s'')),
                 (''default'', JObj [(''type'', JStr ''expression''),
                                     (''value'', JStr (''f('' @ [backslash] @ ''n)''))])]]),
        (''indexes'', JArr []),
        (''elements'', JArr [JObj [(''type'', JStr ''column''), (''column'', JRef 0)],
                             JObj [(''type'', JStr ''column''), (''column'', JRef 1)]])]]),
     (''refs'', JArr []), (''enums'', JArr []), (''tableGroups'', JArr []),
     (''project'', JUndefined), (''partials'', JArr [])]))"
  by code_simp

end
